(* ===== verification/Chat_Prelude.thy ===== *)
theory Chat_Prelude
  imports Complex_Main
begin

text \<open>
  Shared vocabulary of the development. Python's \<open>str\<close> is a sequence of Unicode code
  points, so a Python string is modelled as a list of code points (\<open>ustr\<close>), not as
  Isabelle's byte-sized \<open>string\<close>; \<open>u\<close> turns an ASCII literal into one. The theory
  models the three string builtins that \<open>src/main.py\<close> calls: \<open>str.strip()\<close>
  (\<open>py_strip\<close>, with CPython's exact \<open>str.isspace\<close> set), \<open>str.lower()\<close>
  (\<open>py_lower\<close>) and \<open>str(int)\<close> (\<open>show_nat\<close>, \<open>show_int\<close>), the exception
  monad \<open>bind_exc\<close> used for code that may raise, and the lemmas on them that the
  component theories share.
\<close>

named_theorems py_eval "rules that evaluate the Python string model on literals"

type_synonym codepoint = nat
type_synonym ustr = "codepoint list"

definition u :: "string \<Rightarrow> ustr" where
  "u s = map of_char s"

text \<open>Python's \<open>str.isspace()\<close>, code point by code point (CPython's table).\<close>

definition py_isspace :: "codepoint \<Rightarrow> bool" where
  "py_isspace c \<longleftrightarrow>
     (9 \<le> c \<and> c \<le> 13) \<or> (0x1C \<le> c \<and> c \<le> 0x20) \<or> c = 0x85 \<or> c = 0xA0 \<or> c = 0x1680 \<or>
     (0x2000 \<le> c \<and> c \<le> 0x200A) \<or> c = 0x2028 \<or> c = 0x2029 \<or> c = 0x202F \<or> c = 0x205F \<or>
     c = 0x3000"

text \<open>\<open>str.strip()\<close> without arguments: drop whitespace at both ends.\<close>

definition py_strip :: "ustr \<Rightarrow> ustr" where
  "py_strip s = rev (dropWhile py_isspace (rev (dropWhile py_isspace s)))"

text \<open>
  \<open>str.lower()\<close>: ASCII capitals, and the Kelvin sign U+212A whose lower case is the
  ASCII \<open>k\<close>. Every other code point is kept. This agrees with CPython wherever the
  result is compared with an ASCII or CJK literal, which is every use in the program:
  U+212A is the only non-ASCII code point whose lower case is ASCII.
\<close>

definition py_lower_char :: "codepoint \<Rightarrow> codepoint" where
  "py_lower_char c = (if 65 \<le> c \<and> c \<le> 90 then c + 32 else if c = 0x212A then 107 else c)"

definition py_lower :: "ustr \<Rightarrow> ustr" where
  "py_lower s = map py_lower_char s"

text \<open>\<open>str(n)\<close> for an \<open>int\<close>: decimal digits, with a minus sign when negative.\<close>

fun show_nat :: "nat \<Rightarrow> ustr" where
  "show_nat n = (if n < 10 then [48 + n] else show_nat (n div 10) @ [48 + n mod 10])"

definition show_int :: "int \<Rightarrow> ustr" where
  "show_int i = (if i < 0 then 45 # show_nat (nat (- i)) else show_nat (nat i))"

text \<open>\<open>repr\<close> of a \<open>str\<close> holding no quote, backslash or control character.\<close>

definition py_repr_str :: "ustr \<Rightarrow> ustr" where
  "py_repr_str s = 39 # s @ [39]"

text \<open>Sequencing of code that may raise: \<open>Inl\<close> is the exception in flight.\<close>

definition bind_exc :: "'e + 'a \<Rightarrow> ('a \<Rightarrow> 'e + 'b) \<Rightarrow> 'e + 'b" where
  "bind_exc m f = (case m of Inl e \<Rightarrow> Inl e | Inr a \<Rightarrow> f a)"

subsection \<open>Lemmas\<close>

lemma u_Nil [simp]: "u [] = []"
  and u_Cons [simp]: "u (c # s) = of_char c # u s"
  and u_append [simp]: "u (s @ t) = u s @ u t"
  by (simp_all add: u_def)

lemma bind_exc_Inl [simp]: "bind_exc (Inl e) f = Inl e"
  and bind_exc_Inr [simp]: "bind_exc (Inr a) f = f a"
  by (simp_all add: bind_exc_def)

lemma bind_exc_eq_Inr:
  "bind_exc m f = Inr b \<longleftrightarrow> (\<exists>a. m = Inr a \<and> f a = Inr b)"
  by (cases m) auto

lemma bind_exc_eq_Inl:
  "bind_exc m f = Inl e \<longleftrightarrow> m = Inl e \<or> (\<exists>a. m = Inr a \<and> f a = Inl e)"
  by (cases m) auto

declare show_nat.simps [simp del]

lemma show_nat_small [py_eval]: "n < 10 \<Longrightarrow> show_nat n = [48 + n]"
  by (simp add: show_nat.simps)

lemma show_nat_big [py_eval]:
  "\<not> n < 10 \<Longrightarrow> show_nat n = show_nat (n div 10) @ [48 + n mod 10]"
  by (subst show_nat.simps) simp

lemma show_nat_digits: "c \<in> set (show_nat n) \<Longrightarrow> 48 \<le> c \<and> c \<le> 57"
proof (induction n arbitrary: c rule: show_nat.induct)
  case (1 n)
  show ?case
  proof (cases "n < 10")
    case True
    with "1.prems" show ?thesis by (simp add: show_nat_small)
  next
    case False
    with "1.prems" "1.IH" show ?thesis by (auto simp: show_nat_big)
  qed
qed

lemma show_nat_not_Nil [simp]: "show_nat n \<noteq> []"
  by (cases "n < 10") (simp_all add: py_eval)

lemma py_lower_Nil [simp]: "py_lower [] = []"
  and py_lower_Cons [simp]: "py_lower (c # s) = py_lower_char c # py_lower s"
  and py_lower_append [simp]: "py_lower (s @ t) = py_lower s @ py_lower t"
  by (simp_all add: py_lower_def)

lemma py_lower_char_upper [simp]: "65 \<le> c \<Longrightarrow> c \<le> 90 \<Longrightarrow> py_lower_char c = c + 32"
  and py_lower_char_other [simp]:
    "\<not> (65 \<le> c \<and> c \<le> 90) \<Longrightarrow> c \<noteq> 0x212A \<Longrightarrow> py_lower_char c = c"
  and py_lower_char_kelvin [simp]: "py_lower_char 0x212A = 107"
  by (simp_all add: py_lower_char_def)

lemma py_lower_char_idem [simp]: "py_lower_char (py_lower_char c) = py_lower_char c"
  by (simp add: py_lower_char_def)

lemma py_lower_idem [simp]: "py_lower (py_lower s) = py_lower s"
  by (induction s) simp_all

lemma length_py_lower [simp]: "length (py_lower s) = length s"
  by (simp add: py_lower_def)

lemma py_isspace_letter: "65 \<le> c \<Longrightarrow> c \<le> 122 \<Longrightarrow> \<not> py_isspace c"
  by (simp add: py_isspace_def)

lemma py_isspace_py_lower_char [simp]: "py_isspace (py_lower_char c) = py_isspace c"
  by (auto simp: py_lower_char_def py_isspace_def)

lemma py_lower_eq_Nil [simp]: "py_lower s = [] \<longleftrightarrow> s = []"
  by (simp add: py_lower_def)

lemma all_set_dropWhile:
  "(\<forall>x\<in>set (dropWhile P s). P x) \<longleftrightarrow> (\<forall>x\<in>set s. P x)"
  by (induction s) auto

lemma py_strip_eq_Nil: "py_strip s = [] \<longleftrightarrow> (\<forall>c\<in>set s. py_isspace c)"
  by (simp add: py_strip_def all_set_dropWhile)

lemma py_strip_Nil [simp]: "py_strip [] = []"
  by (simp add: py_strip_def)

lemma py_strip_set: "set (py_strip s) \<subseteq> set s"
  by (auto simp: py_strip_def dest!: set_dropWhileD)

text \<open>An unpadded string is its own strip, and padding on both sides is removed.\<close>

lemma py_strip_trimmed:
  assumes "s = [] \<or> (\<not> py_isspace (hd s) \<and> \<not> py_isspace (last s))"
  shows "py_strip s = s"
proof (cases s rule: rev_cases)
  case Nil
  then show ?thesis by simp
next
  case (snoc t c)
  with assms have hd: "\<not> py_isspace (hd s)" and lst: "\<not> py_isspace c" by auto
  from hd have "dropWhile py_isspace s = s"
    by (cases s) simp_all
  with snoc lst show ?thesis by (simp add: py_strip_def)
qed

lemma dropWhile_all_append:
  "\<forall>c\<in>set a. P c \<Longrightarrow> dropWhile P (a @ s) = dropWhile P s"
  by (induction a) simp_all

lemma py_strip_padded:
  assumes a: "\<forall>c\<in>set a. py_isspace c" and b: "\<forall>c\<in>set b. py_isspace c"
  shows "py_strip (a @ s @ b) = py_strip s"
proof (cases "\<forall>c\<in>set s. py_isspace c")
  case True
  with a b have "py_strip (a @ s @ b) = []" by (auto simp: py_strip_eq_Nil)
  moreover from True have "py_strip s = []" by (simp add: py_strip_eq_Nil)
  ultimately show ?thesis by simp
next
  case False
  have "dropWhile py_isspace (a @ s @ b) = dropWhile py_isspace s @ b"
    using a False by (auto simp: dropWhile_all_append dropWhile_append)
  moreover have "dropWhile py_isspace (rev b @ x) = dropWhile py_isspace x" for x
    using b by (intro dropWhile_all_append) simp
  ultimately show ?thesis by (simp add: py_strip_def)
qed

lemma py_strip_idem [simp]: "py_strip (py_strip s) = py_strip s"
proof -
  let ?l = "dropWhile py_isspace s" and ?r = "dropWhile py_isspace (rev (dropWhile py_isspace s))"
  have rev_strip: "rev (py_strip s) = ?r" by (simp add: py_strip_def)
  have tail: "dropWhile py_isspace (rev (py_strip s)) = rev (py_strip s)"
    by (simp add: rev_strip)
  have front: "dropWhile py_isspace (py_strip s) = py_strip s"
  proof (cases "?r = []")
    case True
    then have "py_strip s = []"
      by (simp add: py_strip_def del: dropWhile_eq_Nil_conv)
    then show ?thesis by simp
  next
    case False
    then obtain x where x: "x \<in> set (rev ?l)" "\<not> py_isspace x"
      using hd_dropWhile [OF False] by (metis hd_in_set set_dropWhileD)
    have "hd (py_strip s) = last ?r"
      using False by (simp add: py_strip_def hd_rev)
    also have "\<dots> = last (rev ?l)" using x by (rule dropWhile_last)
    also have "\<dots> = hd ?l" using x by (auto simp: last_rev)
    finally have "hd (py_strip s) = hd ?l" .
    moreover have "?l \<noteq> []" using x by (auto dest: set_dropWhileD)
    ultimately have "\<not> py_isspace (hd (py_strip s))" by (simp add: hd_dropWhile)
    then show ?thesis by (simp add: dropWhile_eq_self_iff)
  qed
  show ?thesis
    by (simp add: py_strip_def [of "py_strip s"] front tail)
qed

end
