(* ===== verification/Py_Values.thy ===== *)
theory Py_Values
  imports Chat_Prelude
begin

text \<open>
  The Python values and exceptions that \<open>src/main.py\<close> handles. A decoded JSON
  document (what \<open>response.json()\<close> returns) is a \<open>json\<close> value; a raised
  exception is an \<open>exc\<close>, its class and its \<open>str(e)\<close>. \<open>getitem\<close> is Python's
  subscription \<open>obj[key]\<close> on such a value, with the exception each case raises
  (CPython 3.11 messages), so that the chain
  \<open>result['choices'][0]['message']['content']\<close> of \<open>chat_with_deepseek\<close> can be
  followed on every shape of response body.
\<close>

datatype json =
    JNull
  | JBool bool
  | JInt int
  | JFloat rat
  | JStr ustr
  | JList "json list"
  | JObj "(ustr \<times> json) list"

text \<open>The subscripts the program uses: a \<open>str\<close> key or an \<open>int\<close> index.\<close>

datatype pykey = KStr ustr | KInt int

text \<open>
  Exception classes raised on the paths of the program. \<open>ConnectionError\<close>,
  \<open>Timeout\<close>, \<open>HTTPError\<close>, \<open>JSONDecodeError\<close> and \<open>RequestException\<close> are the
  classes of \<open>requests.exceptions\<close> (requests 2.27 or later, where
  \<open>JSONDecodeError\<close> derives from \<open>RequestException\<close>); \<open>KeyboardInterrupt\<close>
  derives from \<open>BaseException\<close> only.
\<close>

datatype exc_class =
    ConnectionError | Timeout | HTTPError | JSONDecodeError | RequestException
  | KeyError | IndexError | TypeError | AttributeError | ValueError
  | KeyboardInterrupt | EOFError

datatype exc = Exc (exc_cls: exc_class) (exc_msg: ustr)

text \<open>\<open>isinstance(e, requests.exceptions.RequestException)\<close>.\<close>

definition is_request_exception :: "exc_class \<Rightarrow> bool" where
  "is_request_exception c \<longleftrightarrow>
     c \<in> {ConnectionError, Timeout, HTTPError, JSONDecodeError, RequestException}"

text \<open>\<open>isinstance(e, Exception)\<close>: every class above but \<open>KeyboardInterrupt\<close>.\<close>

definition is_Exception :: "exc_class \<Rightarrow> bool" where
  "is_Exception c \<longleftrightarrow> c \<noteq> KeyboardInterrupt"

primrec py_type_name :: "json \<Rightarrow> ustr" where
  "py_type_name JNull = u ''NoneType''"
| "py_type_name (JBool b) = u ''bool''"
| "py_type_name (JInt i) = u ''int''"
| "py_type_name (JFloat r) = u ''float''"
| "py_type_name (JStr s) = u ''str''"
| "py_type_name (JList xs) = u ''list''"
| "py_type_name (JObj kvs) = u ''dict''"

text \<open>
  A dict decoded by \<open>json.loads\<close> keeps the last of duplicate keys, hence the lookup
  in the reversed association list.
\<close>

definition dict_lookup :: "(ustr \<times> json) list \<Rightarrow> ustr \<Rightarrow> json option" where
  "dict_lookup kvs k = map_of (rev kvs) k"

text \<open>Python indexing of a sequence; a negative index counts from the end.\<close>

definition py_index :: "'a list \<Rightarrow> int \<Rightarrow> 'a option" where
  "py_index xs i =
     (let n = int (length xs); j = (if i < 0 then n + i else i)
      in if 0 \<le> j \<and> j < n then Some (xs ! nat j) else None)"

fun getitem :: "json \<Rightarrow> pykey \<Rightarrow> exc + json" where
  "getitem (JObj kvs) (KStr k) =
     (case dict_lookup kvs k of
        None \<Rightarrow> Inl (Exc KeyError (py_repr_str k))
      | Some v \<Rightarrow> Inr v)"
| "getitem (JObj kvs) (KInt i) = Inl (Exc KeyError (show_int i))"
| "getitem (JList xs) (KInt i) =
     (case py_index xs i of
        None \<Rightarrow> Inl (Exc IndexError (u ''list index out of range''))
      | Some v \<Rightarrow> Inr v)"
| "getitem (JList xs) (KStr k) =
     Inl (Exc TypeError (u ''list indices must be integers or slices, not str''))"
| "getitem (JStr s) (KInt i) =
     (case py_index s i of
        None \<Rightarrow> Inl (Exc IndexError (u ''string index out of range''))
      | Some c \<Rightarrow> Inr (JStr [c]))"
| "getitem (JStr s) (KStr k) =
     Inl (Exc TypeError (u ''string indices must be integers, not '' @ py_repr_str (u ''str'')))"
| "getitem v k =
     Inl (Exc TypeError (py_repr_str (py_type_name v) @ u '' object is not subscriptable''))"

subsection \<open>Lemmas\<close>

lemma is_request_exception_simps [simp]:
  "is_request_exception ConnectionError" "is_request_exception Timeout"
  "is_request_exception HTTPError" "is_request_exception JSONDecodeError"
  "is_request_exception RequestException"
  "\<not> is_request_exception KeyError" "\<not> is_request_exception IndexError"
  "\<not> is_request_exception TypeError" "\<not> is_request_exception AttributeError"
  "\<not> is_request_exception ValueError" "\<not> is_request_exception KeyboardInterrupt"
  "\<not> is_request_exception EOFError"
  by (simp_all add: is_request_exception_def)

lemma is_Exception_iff [simp]: "is_Exception c \<longleftrightarrow> c \<noteq> KeyboardInterrupt"
  by (simp add: is_Exception_def)

lemma request_exception_is_Exception: "is_request_exception c \<Longrightarrow> is_Exception c"
  by (auto simp: is_request_exception_def)

lemma py_index_0 [simp]: "py_index (x # xs) 0 = Some x" "py_index [] i = None"
  by (simp_all add: py_index_def)

lemma dict_lookup_Cons:
  "dict_lookup ((k', v) # kvs) k =
     (case dict_lookup kvs k of None \<Rightarrow> (if k = k' then Some v else None) | Some w \<Rightarrow> Some w)"
  by (simp add: dict_lookup_def map_add_def split: option.splits)

lemma dict_lookup_None: "dict_lookup kvs k = None \<longleftrightarrow> k \<notin> fst ` set kvs"
  by (simp add: dict_lookup_def map_of_eq_None_iff image_iff)

lemma dict_lookup_notin [simp]: "k \<notin> fst ` set kvs \<Longrightarrow> dict_lookup kvs k = None"
  by (simp add: dict_lookup_None)

lemma dict_lookup_single [simp]: "dict_lookup [(k, v)] k' = (if k' = k then Some v else None)"
  by (simp add: dict_lookup_def)

text \<open>
  Subscription raises only the three exception classes of the table above, and a
  \<open>KeyError\<close> only from a dict: the facts the adapter's exception handlers rely on.
\<close>

lemma getitem_exc_cls:
  "getitem v k = Inl e \<Longrightarrow> exc_cls e \<in> {KeyError, IndexError, TypeError}"
  by (induction v k rule: getitem.induct) (auto split: option.splits)

lemma getitem_KeyError:
  "getitem v k = Inl e \<Longrightarrow> exc_cls e = KeyError \<Longrightarrow> \<exists>kvs. v = JObj kvs"
  by (induction v k rule: getitem.induct) (auto split: option.splits)

lemma getitem_JObj_KStr:
  "getitem (JObj kvs) (KStr k) = Inr v \<longleftrightarrow> dict_lookup kvs k = Some v"
  by (simp split: option.splits)

lemma getitem_missing_key:
  "k \<notin> fst ` set kvs \<Longrightarrow> getitem (JObj kvs) (KStr k) = Inl (Exc KeyError (py_repr_str k))"
  by (simp add: dict_lookup_None [symmetric])

end
