(* ===== verification/Chat_Adapter.thy ===== *)
theory Chat_Adapter
  imports Py_Values
begin

text \<open>
  The Chat Adapter of \<open>src/main.py\<close>: \<open>chat_with_deepseek\<close> (lines 46--77),
  \<open>chat_with_openai\<close> (lines 79--96) and the dispatcher \<open>chat_with_ai\<close> (lines
  98--107). The network is outside the program: each function takes the outcome of its
  one outbound call as an argument (a \<open>post_outcome\<close> for \<open>requests.post\<close>, an
  \<open>oai_outcome\<close> for the OpenAI SDK) and returns the list of calls it issued together
  with its Python result, \<open>Inr\<close> of the returned value or \<open>Inl\<close> of an exception
  that escapes. The returned value is a \<open>json\<close> because the code returns whatever
  \<open>['content']\<close> holds, not necessarily a \<open>str\<close>.
\<close>

subsection \<open>Outbound calls\<close>

record http_request =
  req_url :: ustr
  req_headers :: "(ustr \<times> ustr) list"
  req_json :: json
  req_timeout :: nat

record openai_call =
  oc_model :: ustr
  oc_messages :: json
  oc_max_tokens :: nat
  oc_temperature :: rat

datatype call = Http_post http_request | Openai_create openai_call

text \<open>
  The second component of the selection (\<open>client_or_key\<close>): the DeepSeek key string,
  or the \<open>OpenAI(api_key=...)\<close> client object built from the OpenAI key.
\<close>

datatype handle = Key ustr | Client ustr

text \<open>\<open>str()\<close> of the handle, as an f-string renders it; the object address is elided.\<close>

fun handle_str :: "handle \<Rightarrow> ustr" where
  "handle_str (Key k) = k"
| "handle_str (Client k) = u ''<openai.OpenAI object>''"

definition user_messages :: "ustr \<Rightarrow> json" where
  "user_messages message =
     JList [JObj [(u ''role'', JStr (u ''user'')), (u ''content'', JStr message)]]"

subsection \<open>DeepSeek over HTTP\<close>

definition deepseek_url :: ustr where
  "deepseek_url = u ''https://api.deepseek.com/v1/chat/completions''"

definition deepseek_request :: "ustr \<Rightarrow> ustr \<Rightarrow> http_request" where
  "deepseek_request api_key message =
     \<lparr>req_url = deepseek_url,
      req_headers = [(u ''Content-Type'', u ''application/json''),
                     (u ''Authorization'', u ''Bearer '' @ api_key)],
      req_json = JObj [(u ''model'', JStr (u ''deepseek-chat'')),
                       (u ''messages'', user_messages message),
                       (u ''stream'', JBool False)],
      req_timeout = 30\<rparr>"

text \<open>A response body either decodes as JSON or makes \<open>response.json()\<close> raise.\<close>

datatype body = Body_json json | Body_invalid ustr

record http_response =
  status_code :: nat
  reason :: ustr
  resp_url :: ustr
  resp_body :: body

datatype post_outcome = Post_raise exc | Post_response http_response

text \<open>\<open>Response.raise_for_status()\<close> of requests: 4xx and 5xx raise \<open>HTTPError\<close>.\<close>

definition http_error_msg :: "http_response \<Rightarrow> ustr \<Rightarrow> ustr" where
  "http_error_msg r kind =
     show_nat (status_code r) @ u '' '' @ kind @ u '' Error: '' @ reason r @ u '' for url: ''
     @ resp_url r"

definition raise_for_status :: "http_response \<Rightarrow> exc + unit" where
  "raise_for_status r =
     (if 400 \<le> status_code r \<and> status_code r < 500
      then Inl (Exc HTTPError (http_error_msg r (u ''Client'')))
      else if 500 \<le> status_code r \<and> status_code r < 600
      then Inl (Exc HTTPError (http_error_msg r (u ''Server'')))
      else Inr ())"

definition response_json :: "http_response \<Rightarrow> exc + json" where
  "response_json r =
     (case resp_body r of Body_json j \<Rightarrow> Inr j | Body_invalid m \<Rightarrow> Inl (Exc JSONDecodeError m))"

text \<open>\<open>result['choices'][0]['message']['content']\<close>\<close>

definition extract_content :: "json \<Rightarrow> exc + json" where
  "extract_content result =
     bind_exc (getitem result (KStr (u ''choices''))) (\<lambda>choices.
     bind_exc (getitem choices (KInt 0)) (\<lambda>choice.
     bind_exc (getitem choice (KStr (u ''message''))) (\<lambda>msg.
     getitem msg (KStr (u ''content'')))))"

text \<open>The \<open>try\<close> body, lines 66--70.\<close>

definition deepseek_try :: "post_outcome \<Rightarrow> exc + json" where
  "deepseek_try po =
     (case po of
        Post_raise e \<Rightarrow> Inl e
      | Post_response r \<Rightarrow>
          bind_exc (raise_for_status r) (\<lambda>_. bind_exc (response_json r) extract_content))"

text \<open>The reply prefixes: the failure marker U+274C and the Chinese texts of the source.\<close>

definition fail_marker :: ustr where
  "fail_marker = [0x274C, 32]"

definition deepseek_request_failed :: ustr where
  "deepseek_request_failed =
     fail_marker @ u ''DeepSeek API'' @ [0x8BF7, 0x6C42, 0x5931, 0x8D25] @ u '': ''"

definition deepseek_format_error :: ustr where
  "deepseek_format_error =
     fail_marker @ u ''DeepSeek API'' @ [0x54CD, 0x5E94, 0x683C, 0x5F0F, 0x9519, 0x8BEF] @ u '': ''"

definition unknown_error :: ustr where
  "unknown_error = fail_marker @ [0x672A, 0x77E5, 0x9519, 0x8BEF] @ u '': ''"

text \<open>The three \<open>except\<close> clauses, lines 72--77, tried in order.\<close>

definition deepseek_except :: "exc \<Rightarrow> exc + json" where
  "deepseek_except e =
     (if is_request_exception (exc_cls e) then Inr (JStr (deepseek_request_failed @ exc_msg e))
      else if exc_cls e = KeyError then Inr (JStr (deepseek_format_error @ exc_msg e))
      else if is_Exception (exc_cls e) then Inr (JStr (unknown_error @ exc_msg e))
      else Inl e)"

definition chat_with_deepseek :: "ustr \<Rightarrow> ustr \<Rightarrow> post_outcome \<Rightarrow> call list \<times> (exc + json)" where
  "chat_with_deepseek api_key message po =
     ([Http_post (deepseek_request api_key message)],
      (case deepseek_try po of Inl e \<Rightarrow> deepseek_except e | Inr v \<Rightarrow> Inr v))"

subsection \<open>OpenAI through its SDK\<close>

text \<open>
  The SDK's answer: it raises, or returns a completion whose \<open>choices\<close> carry a
  \<open>message.content\<close> each, a \<open>str\<close> or \<open>None\<close>.
\<close>

datatype oai_outcome = Oai_raise exc | Oai_completion "ustr option list"

definition openai_request :: "ustr \<Rightarrow> openai_call" where
  "openai_request message =
     \<lparr>oc_model = u ''gpt-3.5-turbo'', oc_messages = user_messages message,
      oc_max_tokens = 1000, oc_temperature = 7 / 10\<rparr>"

text \<open>
  The \<open>try\<close> body, lines 84--93. On a key string instead of a client,
  \<open>client.chat\<close> raises before any call is made.
\<close>

definition openai_try :: "handle \<Rightarrow> ustr \<Rightarrow> oai_outcome \<Rightarrow> call list \<times> (exc + json)" where
  "openai_try h message oo =
     (case h of
        Key k \<Rightarrow>
          ([], Inl (Exc AttributeError
                 (py_repr_str (u ''str'') @ u '' object has no attribute '' @ py_repr_str (u ''chat''))))
      | Client k \<Rightarrow>
          ([Openai_create (openai_request message)],
           (case oo of
              Oai_raise e \<Rightarrow> Inl e
            | Oai_completion [] \<Rightarrow> Inl (Exc IndexError (u ''list index out of range''))
            | Oai_completion (c # cs) \<Rightarrow> Inr (case c of None \<Rightarrow> JNull | Some s \<Rightarrow> JStr s))))"

definition openai_request_failed :: ustr where
  "openai_request_failed =
     fail_marker @ u ''OpenAI API'' @ [0x8BF7, 0x6C42, 0x5931, 0x8D25] @ u '': ''"

definition chat_with_openai :: "handle \<Rightarrow> ustr \<Rightarrow> oai_outcome \<Rightarrow> call list \<times> (exc + json)" where
  "chat_with_openai h message oo =
     (case openai_try h message oo of
        (cs, Inl e) \<Rightarrow>
          (cs, if is_Exception (exc_cls e) then Inr (JStr (openai_request_failed @ exc_msg e))
               else Inl e)
      | (cs, Inr v) \<Rightarrow> (cs, Inr v))"

subsection \<open>Dispatch\<close>

definition unsupported_reply :: ustr where
  "unsupported_reply = fail_marker @ [0x4E0D, 0x652F, 0x6301, 0x7684] @ u ''AI'' @ [0x63D0, 0x4F9B, 0x5546]"

definition chat_with_ai ::
  "ustr \<Rightarrow> handle \<Rightarrow> ustr \<Rightarrow> post_outcome \<Rightarrow> oai_outcome \<Rightarrow> call list \<times> (exc + json)" where
  "chat_with_ai provider h message po oo =
     (if provider = u ''deepseek'' then chat_with_deepseek (handle_str h) message po
      else if provider = u ''openai'' then chat_with_openai h message oo
      else ([], Inr (JStr unsupported_reply)))"

subsection \<open>Lemmas\<close>

lemma raise_for_status_Inr:
  "raise_for_status r = Inr x \<longleftrightarrow> \<not> (400 \<le> status_code r \<and> status_code r < 600)"
  by (auto simp: raise_for_status_def)

lemma raise_for_status_ok [simp]:
  "\<not> (400 \<le> status_code r \<and> status_code r < 600) \<Longrightarrow> raise_for_status r = Inr ()"
  by (auto simp: raise_for_status_def)

lemma raise_for_status_Inl:
  "raise_for_status r = Inl e \<Longrightarrow> exc_cls e = HTTPError"
  by (auto simp: raise_for_status_def split: if_splits)

lemma response_json_Inl:
  "response_json r = Inl e \<Longrightarrow> exc_cls e = JSONDecodeError"
  by (auto simp: response_json_def split: body.splits)

lemma extract_content_Inl:
  "extract_content j = Inl e \<Longrightarrow> exc_cls e \<in> {KeyError, IndexError, TypeError}"
  by (auto simp: extract_content_def bind_exc_eq_Inl dest: getitem_exc_cls)

text \<open>An exception of the \<open>try\<close> body that did not come from the transport.\<close>

lemma deepseek_try_Inl:
  "deepseek_try po = Inl e \<Longrightarrow>
     po = Post_raise e \<or> exc_cls e \<in> {HTTPError, JSONDecodeError, KeyError, IndexError, TypeError}"
  by (auto simp: deepseek_try_def bind_exc_eq_Inl split: post_outcome.splits
      dest: raise_for_status_Inl response_json_Inl extract_content_Inl)

lemma deepseek_except_Inl: "deepseek_except e = Inl e' \<Longrightarrow> e' = e \<and> exc_cls e = KeyboardInterrupt"
  by (auto simp: deepseek_except_def split: if_splits)

lemma deepseek_except_Inr:
  "deepseek_except e = Inr v \<Longrightarrow>
     \<exists>p\<in>{deepseek_request_failed, deepseek_format_error, unknown_error}. v = JStr (p @ exc_msg e)"
  by (auto simp: deepseek_except_def split: if_splits)

lemma fst_chat_with_deepseek [simp]:
  "fst (chat_with_deepseek k m po) = [Http_post (deepseek_request k m)]"
  by (simp add: chat_with_deepseek_def)

lemma snd_chat_with_deepseek:
  "snd (chat_with_deepseek k m po) =
     (case deepseek_try po of Inl e \<Rightarrow> deepseek_except e | Inr v \<Rightarrow> Inr v)"
  by (simp add: chat_with_deepseek_def)

lemmas deepseek_path_simps =
  chat_with_deepseek_def deepseek_try_def response_json_def extract_content_def deepseek_except_def

lemma openai_try_Inl:
  "openai_try h m oo = (cs, Inl e) \<Longrightarrow> oo = Oai_raise e \<or> exc_cls e \<in> {AttributeError, IndexError}"
  by (auto simp: openai_try_def split: handle.splits oai_outcome.splits list.splits)

lemma deepseek_result_Inl:
  assumes "snd (chat_with_deepseek k m po) = Inl e"
  shows "po = Post_raise e \<and> exc_cls e = KeyboardInterrupt"
proof -
  obtain e0 where tr: "deepseek_try po = Inl e0" and exc: "deepseek_except e0 = Inl e"
    using assms by (auto simp: snd_chat_with_deepseek split: sum.splits)
  from exc have "e = e0" and cls: "exc_cls e0 = KeyboardInterrupt"
    by (auto dest: deepseek_except_Inl)
  with tr have "po = Post_raise e0" by (auto dest: deepseek_try_Inl)
  with \<open>e = e0\<close> cls show ?thesis by simp
qed

lemma openai_result_Inl:
  assumes "snd (chat_with_openai h m oo) = Inl e"
  shows "oo = Oai_raise e \<and> exc_cls e = KeyboardInterrupt"
proof -
  obtain cs e0 where tr: "openai_try h m oo = (cs, Inl e0)"
    and res: "(if is_Exception (exc_cls e0) then Inr (JStr (openai_request_failed @ exc_msg e0))
               else Inl e0) = Inl e"
    using assms by (auto simp: chat_with_openai_def split: prod.splits sum.splits)
  from res have "e = e0" and cls: "exc_cls e0 = KeyboardInterrupt"
    by (auto split: if_splits)
  with tr have "oo = Oai_raise e0" by (auto dest: openai_try_Inl)
  with \<open>e = e0\<close> cls show ?thesis by simp
qed

subsection \<open>The DeepSeek adapter\<close>

text \<open>
  C1. On a non-error status whose JSON body has a \<open>choices\<close> list whose first entry
  holds \<open>message.content\<close>, \<open>chat_with_deepseek\<close> issues exactly the one POST and
  returns that content unchanged.
\<close>

theorem chat_with_deepseek_success:
  assumes "\<not> (400 \<le> status_code r \<and> status_code r < 600)"
    and "resp_body r = Body_json (JObj kvs)"
    and "dict_lookup kvs (u ''choices'') = Some (JList (JObj choice # others))"
    and "dict_lookup choice (u ''message'') = Some (JObj message)"
    and "dict_lookup message (u ''content'') = Some v"
  shows "chat_with_deepseek k m (Post_response r) = ([Http_post (deepseek_request k m)], Inr v)"
  using assms by (simp add: deepseek_path_simps)

theorem chat_with_deepseek_success_witness:
  "chat_with_deepseek (u ''sk'') (u ''hi'') (Post_response
     \<lparr>status_code = 200, reason = u ''OK'', resp_url = deepseek_url,
      resp_body = Body_json (JObj [(u ''choices'', JList [JObj [(u ''message'',
         JObj [(u ''content'', JStr (u ''hello''))])]])])\<rparr>)
   = ([Http_post (deepseek_request (u ''sk'') (u ''hi''))], Inr (JStr (u ''hello'')))"
  apply (rule chat_with_deepseek_success
      [where choice = "[(u ''message'', JObj [(u ''content'', JStr (u ''hello''))])]"
         and others = "[]" and message = "[(u ''content'', JStr (u ''hello''))]"])
      apply simp
     apply simp
    apply simp
   apply simp
  apply simp
  done

text \<open>
  C2. On a 4xx or 5xx status the reply is the request-failure text followed by the
  message of the \<open>HTTPError\<close> that \<open>raise_for_status\<close> raised; nothing escapes.
\<close>

theorem chat_with_deepseek_http_error:
  assumes "400 \<le> status_code r" and "status_code r < 600"
  shows "snd (chat_with_deepseek k m (Post_response r)) =
    Inr (JStr (deepseek_request_failed @
      http_error_msg r (if status_code r < 500 then u ''Client'' else u ''Server'')))"
  using assms by (simp add: deepseek_path_simps raise_for_status_def)

theorem chat_with_deepseek_http_error_witness:
  "snd (chat_with_deepseek (u ''sk'') (u ''hi'') (Post_response
     \<lparr>status_code = 500, reason = u ''Internal Server Error'', resp_url = deepseek_url,
      resp_body = Body_invalid []\<rparr>)) =
   Inr (JStr (deepseek_request_failed @
     u ''500 Server Error: Internal Server Error for url: https://api.deepseek.com/v1/chat/completions''))"
  using chat_with_deepseek_http_error [of "\<lparr>status_code = 500, reason = u ''Internal Server Error'',
      resp_url = deepseek_url, resp_body = Body_invalid []\<rparr>" "u ''sk''" "u ''hi''"]
  by (simp add: http_error_msg_def py_eval deepseek_url_def)

text \<open>
  C3. A successful status whose JSON object has no \<open>choices\<close> key gives the
  response-format error naming the missing key.
\<close>

theorem chat_with_deepseek_missing_choices:
  assumes "\<not> (400 \<le> status_code r \<and> status_code r < 600)"
    and "resp_body r = Body_json (JObj kvs)" and "u ''choices'' \<notin> fst ` set kvs"
  shows "snd (chat_with_deepseek k m (Post_response r)) =
    Inr (JStr (deepseek_format_error @ py_repr_str (u ''choices'')))"
  using assms by (simp add: deepseek_path_simps)

theorem chat_with_deepseek_missing_choices_witness:
  "snd (chat_with_deepseek (u ''sk'') (u ''hi'') (Post_response
     \<lparr>status_code = 200, reason = u ''OK'', resp_url = deepseek_url,
      resp_body = Body_json (JObj [(u ''error'', JStr (u ''busy''))])\<rparr>)) =
   Inr (JStr (deepseek_format_error @ py_repr_str (u ''choices'')))"
  by (rule chat_with_deepseek_missing_choices) simp+

text \<open>
  C4. No exception escapes \<open>chat_with_deepseek\<close> except a \<open>KeyboardInterrupt\<close>
  raised while the request was in flight: every other failure becomes a reply.
\<close>

theorem chat_with_deepseek_no_escape:
  assumes "snd (chat_with_deepseek k m po) = Inl e"
  shows "po = Post_raise e \<and> exc_cls e = KeyboardInterrupt"
  using assms by (rule deepseek_result_Inl)

theorem chat_with_deepseek_no_escape_witness:
  "snd (chat_with_deepseek (u ''sk'') (u ''hi'') (Post_raise (Exc KeyboardInterrupt []))) =
     Inl (Exc KeyboardInterrupt []) \<and> exc_cls (Exc KeyboardInterrupt []) = KeyboardInterrupt"
proof -
  have h: "snd (chat_with_deepseek (u ''sk'') (u ''hi'') (Post_raise (Exc KeyboardInterrupt []))) =
      Inl (Exc KeyboardInterrupt [])"
    by (simp add: deepseek_path_simps)
  from chat_with_deepseek_no_escape [OF h] h show ?thesis by simp
qed

text \<open>
  C5. A transport failure of \<open>requests.post\<close> (connection error, timeout, any
  \<open>RequestException\<close>) yields the request-failure text followed by \<open>str(e)\<close>.
\<close>

theorem chat_with_deepseek_transport_error:
  assumes "is_request_exception (exc_cls e)"
  shows "chat_with_deepseek k m (Post_raise e) =
    ([Http_post (deepseek_request k m)], Inr (JStr (deepseek_request_failed @ exc_msg e)))"
  using assms by (simp add: deepseek_path_simps)

theorem chat_with_deepseek_transport_error_witness:
  "chat_with_deepseek (u ''sk'') (u ''hi'') (Post_raise (Exc Timeout (u ''Read timed out.''))) =
    ([Http_post (deepseek_request (u ''sk'') (u ''hi''))],
     Inr (JStr (deepseek_request_failed @ u ''Read timed out.'')))"
  using chat_with_deepseek_transport_error [of "Exc Timeout (u ''Read timed out.'')"] by simp

text \<open>
  C20. The request body carries the user's message unchanged: reading
  \<open>messages[0]['content']\<close> and \<open>messages[0]['role']\<close> back from the JSON that
  \<open>chat_with_deepseek\<close> posts gives the message and \<open>user\<close>, and \<open>stream\<close> is false.
\<close>

theorem deepseek_request_roundtrip:
  "fst (chat_with_deepseek k m po) = [Http_post rq] \<Longrightarrow>
     bind_exc (getitem (req_json rq) (KStr (u ''messages''))) (\<lambda>ms.
       bind_exc (getitem ms (KInt 0)) (\<lambda>m0. getitem m0 (KStr (u ''content'')))) = Inr (JStr m)
   \<and> bind_exc (getitem (req_json rq) (KStr (u ''messages''))) (\<lambda>ms.
       bind_exc (getitem ms (KInt 0)) (\<lambda>m0. getitem m0 (KStr (u ''role'')))) = Inr (JStr (u ''user''))
   \<and> getitem (req_json rq) (KStr (u ''stream'')) = Inr (JBool False)
   \<and> req_timeout rq = 30"
  by (auto simp: deepseek_request_def user_messages_def dict_lookup_def)

theorem deepseek_request_roundtrip_witness:
  "getitem (req_json (deepseek_request (u ''sk'') (u ''hi''))) (KStr (u ''stream'')) = Inr (JBool False)"
  using deepseek_request_roundtrip [of "u ''sk''" "u ''hi''" "Post_raise (Exc Timeout [])"
      "deepseek_request (u ''sk'') (u ''hi'')"]
  by simp

text \<open>
  C21. A \<open>choices\<close> list that is empty raises \<open>IndexError\<close>, which the code reports
  as an unknown error, not as the response-format error the spec names.
\<close>

theorem chat_with_deepseek_empty_choices:
  assumes "\<not> (400 \<le> status_code r \<and> status_code r < 600)"
    and "resp_body r = Body_json (JObj kvs)"
    and "dict_lookup kvs (u ''choices'') = Some (JList [])"
  shows "snd (chat_with_deepseek k m (Post_response r)) =
    Inr (JStr (unknown_error @ u ''list index out of range''))"
  using assms by (simp add: deepseek_path_simps)

theorem chat_with_deepseek_empty_choices_witness:
  "snd (chat_with_deepseek (u ''sk'') (u ''hi'') (Post_response
     \<lparr>status_code = 200, reason = u ''OK'', resp_url = deepseek_url,
      resp_body = Body_json (JObj [(u ''choices'', JList [])])\<rparr>)) =
   Inr (JStr (unknown_error @ u ''list index out of range''))"
  by (rule chat_with_deepseek_empty_choices) simp+

text \<open>
  C22. A body that is not JSON makes \<open>response.json()\<close> raise
  \<open>JSONDecodeError\<close>, a \<open>RequestException\<close>, so the reply is the request-failure
  text, not the response-format error.
\<close>

theorem chat_with_deepseek_invalid_json:
  assumes "\<not> (400 \<le> status_code r \<and> status_code r < 600)" and "resp_body r = Body_invalid t"
  shows "snd (chat_with_deepseek k m (Post_response r)) = Inr (JStr (deepseek_request_failed @ t))"
  using assms by (simp add: deepseek_path_simps)

theorem chat_with_deepseek_invalid_json_witness:
  "snd (chat_with_deepseek (u ''sk'') (u ''hi'') (Post_response
     \<lparr>status_code = 200, reason = u ''OK'', resp_url = deepseek_url,
      resp_body = Body_invalid (u ''Expecting value: line 1 column 1 (char 0)'')\<rparr>)) =
   Inr (JStr (deepseek_request_failed @ u ''Expecting value: line 1 column 1 (char 0)''))"
  by (rule chat_with_deepseek_invalid_json) simp+

subsection \<open>The OpenAI adapter and the dispatcher\<close>

lemma chat_with_openai_Client:
  "chat_with_openai (Client k) m oo =
     ([Openai_create (openai_request m)],
      (case oo of
         Oai_raise e \<Rightarrow>
           if is_Exception (exc_cls e) then Inr (JStr (openai_request_failed @ exc_msg e)) else Inl e
       | Oai_completion [] \<Rightarrow> Inr (JStr (openai_request_failed @ u ''list index out of range''))
       | Oai_completion (c # cs) \<Rightarrow> Inr (case c of None \<Rightarrow> JNull | Some s \<Rightarrow> JStr s)))"
  by (simp add: chat_with_openai_def openai_try_def split: oai_outcome.splits list.splits)

text \<open>
  C12. With a client, \<open>chat_with_openai\<close> makes the one SDK call (model
  \<open>gpt-3.5-turbo\<close>, the one user message, \<open>max_tokens\<close> 1000, temperature 0.7)
  and returns the first choice's content.
\<close>

theorem chat_with_openai_success:
  "chat_with_openai (Client k) m (Oai_completion (Some c # cs)) =
     ([Openai_create \<lparr>oc_model = u ''gpt-3.5-turbo'', oc_messages = user_messages m,
        oc_max_tokens = 1000, oc_temperature = 7 / 10\<rparr>], Inr (JStr c))"
  by (simp add: chat_with_openai_Client openai_request_def)

text \<open>
  C13. Any \<open>Exception\<close> from the SDK call becomes the OpenAI failure text followed by
  \<open>str(e)\<close>.
\<close>

theorem chat_with_openai_failure:
  assumes "exc_cls e \<noteq> KeyboardInterrupt"
  shows "chat_with_openai (Client k) m (Oai_raise e) =
    ([Openai_create (openai_request m)], Inr (JStr (openai_request_failed @ exc_msg e)))"
  using assms by (simp add: chat_with_openai_Client)

theorem chat_with_openai_failure_witness:
  "chat_with_openai (Client (u ''sk'')) (u ''hi'') (Oai_raise (Exc RequestException (u ''Connection error.''))) =
    ([Openai_create (openai_request (u ''hi''))],
     Inr (JStr (openai_request_failed @ u ''Connection error.'')))"
  using chat_with_openai_failure [of "Exc RequestException (u ''Connection error.'')"] by simp

text \<open>
  C14. The only exception that escapes \<open>chat_with_openai\<close> is a
  \<open>KeyboardInterrupt\<close> raised inside the SDK call.
\<close>

theorem chat_with_openai_no_escape:
  assumes "snd (chat_with_openai h m oo) = Inl e"
  shows "oo = Oai_raise e \<and> exc_cls e = KeyboardInterrupt"
  using assms by (rule openai_result_Inl)

theorem chat_with_openai_no_escape_witness:
  "snd (chat_with_openai (Client (u ''sk'')) (u ''hi'') (Oai_raise (Exc KeyboardInterrupt []))) =
     Inl (Exc KeyboardInterrupt []) \<and> exc_cls (Exc KeyboardInterrupt []) = KeyboardInterrupt"
proof -
  have h: "snd (chat_with_openai (Client (u ''sk'')) (u ''hi'') (Oai_raise (Exc KeyboardInterrupt []))) =
      Inl (Exc KeyboardInterrupt [])"
    by (simp add: chat_with_openai_Client)
  from chat_with_openai_no_escape [OF h] h show ?thesis by simp
qed

text \<open>
  For a provider other than \<open>deepseek\<close> and \<open>openai\<close>, \<open>chat_with_ai\<close>
  issues no call and returns the unsupported-provider text.
\<close>

lemma chat_with_ai_unsupported:
  assumes "p \<noteq> u ''deepseek''" and "p \<noteq> u ''openai''"
  shows "chat_with_ai p h m po oo = ([], Inr (JStr unsupported_reply))"
  using assms by (simp add: chat_with_ai_def)

subsection \<open>Calls and escaping exceptions of one turn\<close>

text \<open>
  The calls one turn issues do not depend on the network's answer: \<open>chat_calls\<close>
  lists them.
\<close>

definition chat_calls :: "ustr \<Rightarrow> handle \<Rightarrow> ustr \<Rightarrow> call list" where
  "chat_calls p h m =
     (if p = u ''deepseek'' then [Http_post (deepseek_request (handle_str h) m)]
      else if p = u ''openai'' then (case h of Key k \<Rightarrow> [] | Client k \<Rightarrow> [Openai_create (openai_request m)])
      else [])"

lemma fst_chat_with_ai: "fst (chat_with_ai p h m po oo) = chat_calls p h m"
  by (auto simp: chat_with_ai_def chat_calls_def chat_with_openai_def openai_try_def
      split: handle.splits prod.splits sum.splits)

text \<open>An exception escapes \<open>chat_with_ai\<close> only as a \<open>KeyboardInterrupt\<close> of the network.\<close>

lemma chat_with_ai_Inl:
  assumes "snd (chat_with_ai p h m po oo) = Inl e"
  shows "exc_cls e = KeyboardInterrupt \<and> (po = Post_raise e \<or> oo = Oai_raise e)"
proof -
  consider "p = u ''deepseek''" | "p \<noteq> u ''deepseek''" "p = u ''openai''"
    | "p \<noteq> u ''deepseek''" "p \<noteq> u ''openai''" by blast
  then show ?thesis
  proof cases
    case 1
    with assms show ?thesis by (auto simp: chat_with_ai_def dest: deepseek_result_Inl)
  next
    case 2
    with assms show ?thesis by (auto simp: chat_with_ai_def dest: openai_result_Inl)
  next
    case 3
    with assms show ?thesis by (simp add: chat_with_ai_def)
  qed
qed

end
