(* ===== verification/Resolver.thy ===== *)
theory Resolver
  imports Chat_Adapter
begin

text \<open>
  The Provider Resolver \<open>init_client\<close> of \<open>src/main.py\<close> (lines 17--44). The process
  environment, after \<open>load_dotenv()\<close> (\<open>load_dotenv\<close>, line 15), is a map from
  variable names to values; what
  the program prints is a list of \<open>out_event\<close>s, one per \<open>print\<close> site (the loop of
  \<open>main\<close> uses the same type). \<open>resolve\<close> is the contract of the spec (section 4.1):
  a tagged selection or a resolution error; \<open>abs_init\<close> reads \<open>init_client\<close>'s
  result as such a value, and the refinement lemma says when the two agree.
\<close>

type_synonym env = "ustr \<rightharpoonup> ustr"

text \<open>The printed output of the program, one constructor per group of \<open>print\<close> calls.\<close>

datatype out_event =
    Out_missing_key ustr   \<comment> \<open>lines 26--27 and 34--35: the variable name\<close>
  | Out_unsupported ustr   \<comment> \<open>lines 42--43: the lower-cased provider name\<close>
  | Out_banner             \<comment> \<open>lines 110--112\<close>
  | Out_init_ok ustr       \<comment> \<open>lines 119--122: the provider\<close>
  | Out_blank              \<comment> \<open>line 124\<close>
  | Out_prompt             \<comment> \<open>line 130: the prompt \<open>input()\<close> writes\<close>
  | Out_bye                \<comment> \<open>line 134\<close>
  | Out_empty              \<comment> \<open>line 139\<close>
  | Out_thinking ustr      \<comment> \<open>lines 143--146: the provider\<close>
  | Out_reply json         \<comment> \<open>line 152: the reply, rendered by \<open>str\<close>\<close>
  | Out_interrupted        \<comment> \<open>line 155\<close>
  | Out_error ustr         \<comment> \<open>lines 158--159: \<open>str(e)\<close>\<close>

text \<open>\<open>os.getenv(name, default)\<close>\<close>

definition getenv_default :: "env \<Rightarrow> ustr \<Rightarrow> ustr \<Rightarrow> ustr" where
  "getenv_default env name d = (case env name of None \<Rightarrow> d | Some v \<Rightarrow> v)"

text \<open>\<open>not api_key\<close> for \<open>api_key = os.getenv(name)\<close>: unset, or the empty string.\<close>

definition key_missing :: "ustr option \<Rightarrow> bool" where
  "key_missing v \<longleftrightarrow> (case v of None \<Rightarrow> True | Some s \<Rightarrow> s = [])"

definition init_client :: "env \<Rightarrow> out_event list \<times> (ustr \<times> handle) option" where
  "init_client env =
     (let model_provider = py_lower (getenv_default env (u ''MODEL_PROVIDER'') (u ''deepseek''))
      in if model_provider = u ''deepseek'' then
           (if key_missing (env (u ''DEEPSEEK_API_KEY''))
            then ([Out_missing_key (u ''DEEPSEEK_API_KEY'')], None)
            else ([], Some (u ''deepseek'', Key (the (env (u ''DEEPSEEK_API_KEY''))))))
         else if model_provider = u ''openai'' then
           (if key_missing (env (u ''OPENAI_API_KEY''))
            then ([Out_missing_key (u ''OPENAI_API_KEY'')], None)
            else ([], Some (u ''openai'', Client (the (env (u ''OPENAI_API_KEY''))))))
         else ([Out_unsupported model_provider], None))"

text \<open>
  \<open>load_dotenv()\<close> of line 15 (python-dotenv, default \<open>override=False\<close>): a
  variable of the \<open>.env\<close> file enters the environment only where the process
  environment does not already set it.
\<close>

definition load_dotenv :: "env \<Rightarrow> env \<Rightarrow> env" where
  "load_dotenv environ dotenv = dotenv ++ environ"

subsection \<open>The contract of the spec\<close>

datatype selection = DeepSeek ustr | OpenAI ustr

datatype resolution_error = UnsupportedProvider ustr | MissingCredential ustr

text \<open>
  Section 4.1 of the spec: default provider \<open>deepseek\<close>, compared lower-cased; an
  unknown name is \<open>UnsupportedProvider\<close>, an absent credential \<open>MissingCredential\<close>.
\<close>

definition resolve :: "env \<Rightarrow> resolution_error + selection" where
  "resolve env =
     (let name = py_lower (case env (u ''MODEL_PROVIDER'') of None \<Rightarrow> u ''deepseek'' | Some n \<Rightarrow> n)
      in if name = u ''deepseek'' then
           (case env (u ''DEEPSEEK_API_KEY'') of
              None \<Rightarrow> Inl (MissingCredential (u ''deepseek'')) | Some k \<Rightarrow> Inr (DeepSeek k))
         else if name = u ''openai'' then
           (case env (u ''OPENAI_API_KEY'') of
              None \<Rightarrow> Inl (MissingCredential (u ''openai'')) | Some k \<Rightarrow> Inr (OpenAI k))
         else Inl (UnsupportedProvider name))"

fun handle_key :: "handle \<Rightarrow> ustr" where
  "handle_key (Key k) = k"
| "handle_key (Client k) = k"

text \<open>\<open>init_client\<close>'s result read as the spec's value.\<close>

fun abs_init :: "out_event list \<times> (ustr \<times> handle) option \<Rightarrow> resolution_error + selection" where
  "abs_init (evs, Some (p, h)) =
     Inr (if p = u ''deepseek'' then DeepSeek (handle_key h) else OpenAI (handle_key h))"
| "abs_init ([Out_missing_key v], None) =
     Inl (MissingCredential (if v = u ''DEEPSEEK_API_KEY'' then u ''deepseek'' else u ''openai''))"
| "abs_init ([Out_unsupported n], None) = Inl (UnsupportedProvider n)"
| "abs_init (evs, None) = Inl (UnsupportedProvider [])"

subsection \<open>Lemmas\<close>

lemma provider_literals_distinct [simp]: "u ''deepseek'' \<noteq> u ''openai''"
  by simp

lemma key_missing_simps [simp]:
  "key_missing None" "key_missing (Some s) \<longleftrightarrow> s = []"
  by (simp_all add: key_missing_def)

lemma not_key_missing: "\<not> key_missing v \<longleftrightarrow> (\<exists>k. v = Some k \<and> k \<noteq> [])"
  by (cases v) simp_all

lemmas init_client_simps = init_client_def getenv_default_def Let_def

text \<open>A selection comes with the key read from the provider's own variable.\<close>

lemma init_client_Some:
  assumes "init_client env = (evs, Some (p, h))"
  shows "evs = [] \<and>
    ((p = u ''deepseek'' \<and> (\<exists>k. env (u ''DEEPSEEK_API_KEY'') = Some k \<and> k \<noteq> [] \<and> h = Key k)) \<or>
     (p = u ''openai'' \<and> (\<exists>k. env (u ''OPENAI_API_KEY'') = Some k \<and> k \<noteq> [] \<and> h = Client k)))"
  using assms by (auto simp: init_client_simps not_key_missing split: if_splits)

text \<open>A failed resolution prints one message: a missing key variable or the unknown name.\<close>

lemma init_client_None:
  assumes "init_client env = (evs, None)"
  shows "(\<exists>v. evs = [Out_missing_key v] \<and> (v = u ''DEEPSEEK_API_KEY'' \<or> v = u ''OPENAI_API_KEY'')) \<or>
         (\<exists>p. evs = [Out_unsupported p] \<and> p \<noteq> u ''deepseek'' \<and> p \<noteq> u ''openai'')"
proof -
  let ?mp = "py_lower (getenv_default env (u ''MODEL_PROVIDER'') (u ''deepseek''))"
  consider "?mp = u ''deepseek''" | "?mp \<noteq> u ''deepseek''" "?mp = u ''openai''"
    | "?mp \<noteq> u ''deepseek''" "?mp \<noteq> u ''openai''" by blast
  then show ?thesis
  proof cases
    case 1
    with assms show ?thesis
      by (cases "key_missing (env (u ''DEEPSEEK_API_KEY''))") (auto simp: init_client_def Let_def)
  next
    case 2
    with assms show ?thesis
      by (cases "key_missing (env (u ''OPENAI_API_KEY''))") (auto simp: init_client_def Let_def)
  next
    case 3
    with assms show ?thesis by (auto simp: init_client_def Let_def)
  qed
qed

subsection \<open>Properties\<close>

text \<open>
  C6. A provider name that is neither \<open>deepseek\<close> nor \<open>openai\<close> after lower-casing
  makes \<open>init_client\<close> report it and return no selection.
\<close>

theorem init_client_unsupported:
  assumes "py_lower (getenv_default env (u ''MODEL_PROVIDER'') (u ''deepseek'')) = n"
    and "n \<noteq> u ''deepseek''" and "n \<noteq> u ''openai''"
  shows "init_client env = ([Out_unsupported n], None)"
  using assms by (simp add: init_client_def Let_def)

theorem init_client_unsupported_witness:
  "init_client [u ''MODEL_PROVIDER'' \<mapsto> u ''Gemini''] = ([Out_unsupported (u ''gemini'')], None)"
  by (rule init_client_unsupported) (simp_all add: getenv_default_def)

text \<open>
  C7. For a recognised provider whose key variable is unset or empty,
  \<open>init_client\<close> reports that variable and returns no selection.
\<close>

theorem init_client_missing_credential:
  assumes "py_lower (getenv_default env (u ''MODEL_PROVIDER'') (u ''deepseek'')) = p"
    and "(p = u ''deepseek'' \<and> var = u ''DEEPSEEK_API_KEY'') \<or> (p = u ''openai'' \<and> var = u ''OPENAI_API_KEY'')"
    and "key_missing (env var)"
  shows "init_client env = ([Out_missing_key var], None)"
  using assms by (auto simp: init_client_def Let_def)

theorem init_client_missing_credential_witness:
  "init_client [u ''MODEL_PROVIDER'' \<mapsto> u ''OpenAI'', u ''OPENAI_API_KEY'' \<mapsto> []] =
     ([Out_missing_key (u ''OPENAI_API_KEY'')], None)"
  by (rule init_client_missing_credential [where p = "u ''openai''"])
    (simp_all add: getenv_default_def)

text \<open>
  C17. A selection returned by \<open>init_client\<close> is \<open>deepseek\<close> with a non-empty key
  string or \<open>openai\<close> with a client built from a non-empty key, and nothing is printed.
\<close>

theorem init_client_selection_valid:
  assumes "init_client env = (evs, Some (p, h))"
  shows "evs = [] \<and> ((p = u ''deepseek'' \<and> (\<exists>k. h = Key k \<and> k \<noteq> [])) \<or>
                      (p = u ''openai'' \<and> (\<exists>k. h = Client k \<and> k \<noteq> [])))"
  using init_client_Some [OF assms] by auto

theorem init_client_selection_valid_witness:
  "init_client [u ''DEEPSEEK_API_KEY'' \<mapsto> u ''sk''] = ([], Some (u ''deepseek'', Key (u ''sk''))) \<and>
   (u ''deepseek'' = u ''deepseek'' \<and> (\<exists>k. Key (u ''sk'') = Key k \<and> k \<noteq> []))"
proof -
  have h: "init_client [u ''DEEPSEEK_API_KEY'' \<mapsto> u ''sk''] = ([], Some (u ''deepseek'', Key (u ''sk'')))"
    by (simp add: init_client_simps)
  from init_client_selection_valid [OF h] h show ?thesis by simp
qed

text \<open>
  C23. With \<open>MODEL_PROVIDER\<close> unset the provider is \<open>deepseek\<close>, and a non-empty
  \<open>DEEPSEEK_API_KEY\<close> is passed on unchanged.
\<close>

theorem init_client_default_provider:
  assumes "env (u ''MODEL_PROVIDER'') = None" and "env (u ''DEEPSEEK_API_KEY'') = Some k" and "k \<noteq> []"
  shows "init_client env = ([], Some (u ''deepseek'', Key k))"
  using assms by (simp add: init_client_simps)

theorem init_client_default_provider_witness:
  "init_client [u ''DEEPSEEK_API_KEY'' \<mapsto> u ''sk-1''] = ([], Some (u ''deepseek'', Key (u ''sk-1'')))"
  by (rule init_client_default_provider) simp_all

text \<open>
  C16. Refinement: wherever no key variable is set to the empty string,
  \<open>init_client\<close> implements the spec's \<open>resolve\<close>.
\<close>

theorem init_client_refines_resolve:
  assumes "env (u ''DEEPSEEK_API_KEY'') \<noteq> Some []" and "env (u ''OPENAI_API_KEY'') \<noteq> Some []"
  shows "abs_init (init_client env) = resolve env"
  using assms
  by (cases "env (u ''MODEL_PROVIDER'')"; cases "env (u ''DEEPSEEK_API_KEY'')";
      cases "env (u ''OPENAI_API_KEY'')")
     (simp_all add: init_client_simps resolve_def)

theorem init_client_refines_resolve_witness:
  "abs_init (init_client [u ''MODEL_PROVIDER'' \<mapsto> u ''OPENAI'']) = Inl (MissingCredential (u ''openai''))"
proof -
  have "abs_init (init_client [u ''MODEL_PROVIDER'' \<mapsto> u ''OPENAI'']) =
      resolve [u ''MODEL_PROVIDER'' \<mapsto> u ''OPENAI'']"
    by (rule init_client_refines_resolve) simp_all
  then show ?thesis by (simp add: resolve_def)
qed

text \<open>
  C30. \<open>init_client\<close> reads no variable but \<open>MODEL_PROVIDER\<close>,
  \<open>DEEPSEEK_API_KEY\<close> and \<open>OPENAI_API_KEY\<close>: two environments that agree on
  these give the same output and selection.
\<close>

theorem init_client_reads_only_config:
  assumes "env (u ''MODEL_PROVIDER'') = env' (u ''MODEL_PROVIDER'')"
    and "env (u ''DEEPSEEK_API_KEY'') = env' (u ''DEEPSEEK_API_KEY'')"
    and "env (u ''OPENAI_API_KEY'') = env' (u ''OPENAI_API_KEY'')"
  shows "init_client env = init_client env'"
  using assms by (simp add: init_client_simps)

theorem init_client_reads_only_config_witness:
  "init_client [u ''MODEL_PROVIDER'' \<mapsto> u ''openai'', u ''OPENAI_API_KEY'' \<mapsto> u ''sk'', u ''HOME'' \<mapsto> u ''/root''] =
   init_client [u ''MODEL_PROVIDER'' \<mapsto> u ''openai'', u ''OPENAI_API_KEY'' \<mapsto> u ''sk'']"
  by (rule init_client_reads_only_config) simp_all

end
