(* ===== verification/Chat_Loop.thy ===== *)
theory Chat_Loop
  imports Resolver
begin

text \<open>
  The interactive loop of \<open>main\<close> in \<open>src/main.py\<close> (lines 109--159). The state
  of a run is a \<open>repl\<close> record: the console input still to be read, the outbound calls
  issued so far, and the events printed so far. Console input is a list of lines and
  Ctrl-C presses; once it is exhausted every \<open>input()\<close> raises \<open>EOFError\<close>. The
  network answers the \<open>k\<close>-th call (counting from 0) with \<open>post_net n k\<close> or
  \<open>oai_net n k\<close>. One iteration of \<open>while True\<close> is \<open>loop_body\<close>; the loop is
  \<open>run_loop\<close>, a \<open>partial_function (option)\<close> whose value \<open>None\<close> is a run that
  never leaves the loop; \<open>main\<close> and \<open>program\<close> compose it with \<open>init_client\<close>
  and \<open>load_dotenv\<close>.
\<close>

datatype line_event = In_line ustr | In_interrupt

record repl =
  stdin :: "line_event list"
  sent :: "call list"
  printed :: "out_event list"

record net =
  post_net :: "nat \<Rightarrow> post_outcome"
  oai_net :: "nat \<Rightarrow> oai_outcome"

datatype 'a step = Continue 'a | Break 'a

text \<open>The exit words of line 133: \<open>quit\<close>, \<open>exit\<close>, the Chinese word for exit, \<open>q\<close>.\<close>

definition exit_commands :: "ustr list" where
  "exit_commands = [u ''quit'', u ''exit'', [0x9000, 0x51FA], u ''q'']"

text \<open>\<open>input()\<close>: the next line, \<open>KeyboardInterrupt\<close> for Ctrl-C, \<open>EOFError\<close> at the end.\<close>

fun read_input :: "line_event list \<Rightarrow> (exc + ustr) \<times> line_event list" where
  "read_input [] = (Inl (Exc EOFError (u ''EOF when reading a line'')), [])"
| "read_input (In_interrupt # rest) = (Inl (Exc KeyboardInterrupt []), rest)"
| "read_input (In_line s # rest) = (Inr s, rest)"

definition emit :: "out_event \<Rightarrow> repl \<Rightarrow> repl" where
  "emit e st = st\<lparr>printed := printed st @ [e]\<rparr>"

text \<open>The two \<open>except\<close> clauses of the loop, lines 154--159.\<close>

definition loop_except :: "exc \<Rightarrow> repl \<Rightarrow> repl step" where
  "loop_except e st =
     (if exc_cls e = KeyboardInterrupt then Break (emit Out_interrupted st)
      else Continue (emit (Out_error (exc_msg e)) st))"

text \<open>The provider named by the status line of lines 143--146.\<close>

definition provider_label :: "ustr \<Rightarrow> ustr" where
  "provider_label p = (if p = u ''deepseek'' then u ''deepseek'' else u ''openai'')"

text \<open>One chat turn, lines 143--152: status line, one call, the reply printed.\<close>

definition chat_turn :: "ustr \<Rightarrow> handle \<Rightarrow> net \<Rightarrow> ustr \<Rightarrow> repl \<Rightarrow> repl step" where
  "chat_turn provider h n user_input st =
     (let st1 = emit (Out_thinking (provider_label provider)) st;
          k = length (sent st1);
          (cs, r) = chat_with_ai provider h user_input (post_net n k) (oai_net n k);
          st2 = st1\<lparr>sent := sent st1 @ cs\<rparr>
      in case r of Inl e \<Rightarrow> loop_except e st2 | Inr v \<Rightarrow> Continue (emit (Out_reply v) st2))"

text \<open>
  One iteration of \<open>while True\<close>, lines 128--159: \<open>input()\<close> writes its prompt, then
  reads.
\<close>

definition loop_body :: "ustr \<Rightarrow> handle \<Rightarrow> net \<Rightarrow> repl \<Rightarrow> repl step" where
  "loop_body provider h n st =
     (let st0 = emit Out_prompt st
      in case read_input (stdin st0) of
        (Inl e, rest) \<Rightarrow> loop_except e (st0\<lparr>stdin := rest\<rparr>)
      | (Inr line, rest) \<Rightarrow>
          (let st1 = st0\<lparr>stdin := rest\<rparr>; user_input = py_strip line
           in if py_lower user_input \<in> set exit_commands then Break (emit Out_bye st1)
              else if user_input = [] then Continue (emit Out_empty st1)
              else chat_turn provider h n user_input st1))"

partial_function (option) run_loop :: "ustr \<Rightarrow> handle \<Rightarrow> net \<Rightarrow> repl \<Rightarrow> repl option" where
  "run_loop provider h n st =
     (case loop_body provider h n st of
        Break st' \<Rightarrow> Some st'
      | Continue st' \<Rightarrow> run_loop provider h n st')"

text \<open>\<open>main()\<close>: banner, \<open>init_client\<close>, and the loop when a provider was selected.\<close>

definition main :: "env \<Rightarrow> net \<Rightarrow> line_event list \<Rightarrow> repl option" where
  "main env n inp =
     (case init_client env of
        (evs, None) \<Rightarrow> Some \<lparr>stdin = inp, sent = [], printed = Out_banner # evs\<rparr>
      | (evs, Some (p, h)) \<Rightarrow>
          run_loop p h n \<lparr>stdin = inp, sent = [],
            printed = Out_banner # evs @ [Out_init_ok (provider_label p), Out_blank]\<rparr>)"

text \<open>
  The program: the module runs \<open>load_dotenv()\<close> on import (line 15) and
  \<open>main()\<close> under \<open>if __name__ == "__main__"\<close> (lines 161--162), with the
  process environment \<open>environ\<close> and the variables of the \<open>.env\<close> file.
\<close>

definition program :: "env \<Rightarrow> env \<Rightarrow> net \<Rightarrow> line_event list \<Rightarrow> repl option" where
  "program environ dotenv n inp = main (load_dotenv environ dotenv) n inp"

subsection \<open>Vocabulary of the loop's properties\<close>

text \<open>An input event that ends the loop: Ctrl-C, or a line that is an exit word.\<close>

fun is_stop :: "line_event \<Rightarrow> bool" where
  "is_stop In_interrupt = True"
| "is_stop (In_line s) = (py_lower (py_strip s) \<in> set exit_commands)"

text \<open>The network raises \<open>KeyboardInterrupt\<close> for some call.\<close>

definition net_interrupts :: "net \<Rightarrow> bool" where
  "net_interrupts n \<longleftrightarrow>
     (\<exists>k e. exc_cls e = KeyboardInterrupt \<and> (post_net n k = Post_raise e \<or> oai_net n k = Oai_raise e))"

text \<open>
  The abstract session: the calls a conversation issues are those of its non-blank,
  non-exit lines up to the first stop event, one turn per line, each for the stripped
  line.
\<close>

fun session_calls :: "ustr \<Rightarrow> handle \<Rightarrow> line_event list \<Rightarrow> call list" where
  "session_calls p h [] = []"
| "session_calls p h (In_interrupt # rest) = []"
| "session_calls p h (In_line s # rest) =
     (if py_lower (py_strip s) \<in> set exit_commands then []
      else if py_strip s = [] then session_calls p h rest
      else chat_calls p h (py_strip s) @ session_calls p h rest)"

fun step_state :: "'a step \<Rightarrow> 'a" where
  "step_state (Continue s) = s"
| "step_state (Break s) = s"

subsection \<open>Lemmas on one iteration\<close>

lemma emit_fields [simp]:
  "stdin (emit e st) = stdin st" "sent (emit e st) = sent st"
  "printed (emit e st) = printed st @ [e]"
  by (simp_all add: emit_def)

lemma loop_except_fields [simp]:
  "stdin (step_state (loop_except e st)) = stdin st"
  "sent (step_state (loop_except e st)) = sent st"
  by (simp_all add: loop_except_def)

lemma loop_except_Break: "loop_except e st = Break st' \<longleftrightarrow>
    exc_cls e = KeyboardInterrupt \<and> st' = emit Out_interrupted st"
  by (auto simp: loop_except_def)

lemma chat_turn_fields:
  "stdin (step_state (chat_turn p h n m st)) = stdin st \<and>
   sent (step_state (chat_turn p h n m st)) = sent st @ chat_calls p h m"
proof -
  obtain cs r where eq: "chat_with_ai p h m (post_net n (length (sent st))) (oai_net n (length (sent st))) = (cs, r)"
    by fastforce
  moreover have "cs = chat_calls p h m"
    using fst_chat_with_ai [of p h m "post_net n (length (sent st))" "oai_net n (length (sent st))"] eq
    by simp
  ultimately show ?thesis
    by (auto simp: chat_turn_def Let_def split: sum.splits)
qed

lemma chat_turn_Break: "chat_turn p h n m st = Break st' \<Longrightarrow> net_interrupts n"
  by (auto simp: chat_turn_def Let_def loop_except_Break net_interrupts_def
      split: prod.splits sum.splits dest!: chat_with_ai_Inl [OF trans [OF arg_cong [where f = snd]]])

lemma empty_not_exit [simp]: "[] \<notin> set exit_commands"
  by (simp add: exit_commands_def)

lemma loop_body_eof: "stdin st = [] \<Longrightarrow>
    loop_body p h n st = Continue (emit (Out_error (u ''EOF when reading a line'')) (emit Out_prompt st))"
  by (simp add: loop_body_def loop_except_def Let_def)

lemma loop_body_interrupt: "stdin st = In_interrupt # rest \<Longrightarrow>
    loop_body p h n st = Break (emit Out_interrupted ((emit Out_prompt st)\<lparr>stdin := rest\<rparr>))"
  by (simp add: loop_body_def loop_except_def Let_def)

lemma loop_body_exit: "stdin st = In_line s # rest \<Longrightarrow> py_lower (py_strip s) \<in> set exit_commands \<Longrightarrow>
    loop_body p h n st = Break (emit Out_bye ((emit Out_prompt st)\<lparr>stdin := rest\<rparr>))"
  by (simp add: loop_body_def)

lemma loop_body_blank: "stdin st = In_line s # rest \<Longrightarrow> py_strip s = [] \<Longrightarrow>
    loop_body p h n st = Continue (emit Out_empty ((emit Out_prompt st)\<lparr>stdin := rest\<rparr>))"
  by (simp add: loop_body_def)

lemma loop_body_chat: "stdin st = In_line s # rest \<Longrightarrow> py_lower (py_strip s) \<notin> set exit_commands \<Longrightarrow>
    py_strip s \<noteq> [] \<Longrightarrow> loop_body p h n st = chat_turn p h n (py_strip s) ((emit Out_prompt st)\<lparr>stdin := rest\<rparr>)"
  by (simp add: loop_body_def)

lemmas loop_body_cases = loop_body_eof loop_body_interrupt loop_body_exit loop_body_blank loop_body_chat

lemma loop_body_line:
  assumes "stdin st = In_line s # rest"
  shows "(py_lower (py_strip s) \<in> set exit_commands \<and>
            loop_body p h n st = Break (emit Out_bye ((emit Out_prompt st)\<lparr>stdin := rest\<rparr>)))
       \<or> (py_lower (py_strip s) \<notin> set exit_commands \<and> py_strip s = [] \<and>
            loop_body p h n st = Continue (emit Out_empty ((emit Out_prompt st)\<lparr>stdin := rest\<rparr>)))
       \<or> (py_lower (py_strip s) \<notin> set exit_commands \<and> py_strip s \<noteq> [] \<and>
            loop_body p h n st = chat_turn p h n (py_strip s) ((emit Out_prompt st)\<lparr>stdin := rest\<rparr>))"
  using assms by (simp add: loop_body_def Let_def)

text \<open>An iteration reads at most one event, and stops only on a stop event or an interrupt.\<close>

lemma loop_body_stdin: "stdin (step_state (loop_body p h n st)) = drop 1 (stdin st)"
proof (cases "stdin st")
  case Nil
  then show ?thesis by (simp add: loop_body_eof)
next
  case (Cons e rest)
  show ?thesis
  proof (cases e)
    case In_interrupt
    with Cons show ?thesis by (simp add: loop_body_interrupt)
  next
    case (In_line s)
    with Cons have "stdin st = In_line s # rest" by simp
    from loop_body_line [OF this, of p h n] Cons show ?thesis
      by (elim disjE) (simp_all add: chat_turn_fields)
  qed
qed

lemma loop_body_Break:
  assumes "loop_body p h n st = Break st'"
  shows "(stdin st \<noteq> [] \<and> is_stop (hd (stdin st))) \<or> net_interrupts n"
proof (cases "stdin st")
  case Nil
  with assms show ?thesis by (simp add: loop_body_eof)
next
  case (Cons e rest)
  show ?thesis
  proof (cases "is_stop e")
    case True
    with Cons show ?thesis by simp
  next
    case False
    then obtain s where e: "e = In_line s" and ne: "py_lower (py_strip s) \<notin> set exit_commands"
      by (cases e) auto
    with Cons have "stdin st = In_line s # rest" by simp
    from loop_body_line [OF this, of p h n] ne assms show ?thesis
      by (auto dest: chat_turn_Break sym [THEN chat_turn_Break])
  qed
qed

lemma loop_body_stop: "stdin st = e # rest \<Longrightarrow> is_stop e \<Longrightarrow> \<exists>st'. loop_body p h n st = Break st'"
  by (cases e) (auto simp: loop_body_cases)

text \<open>What an iteration adds to the calls, measured against the abstract session.\<close>

lemma loop_body_sent:
  assumes "\<not> net_interrupts n"
  shows "(loop_body p h n st = Continue st' \<longrightarrow>
            sent st' @ session_calls p h (stdin st') = sent st @ session_calls p h (stdin st))
       \<and> (loop_body p h n st = Break st' \<longrightarrow> sent st' = sent st @ session_calls p h (stdin st))"
proof (cases "stdin st")
  case Nil
  then show ?thesis by (auto simp: loop_body_eof)
next
  case (Cons e rest)
  show ?thesis
  proof (cases e)
    case In_interrupt
    with Cons show ?thesis by (auto simp: loop_body_interrupt)
  next
    case (In_line s)
    with Cons have line: "stdin st = In_line s # rest" by simp
    have "chat_turn p h n (py_strip s) ((emit Out_prompt st)\<lparr>stdin := rest\<rparr>) = Continue st' \<Longrightarrow>
        stdin st' = rest \<and> sent st' = sent st @ chat_calls p h (py_strip s)"
      using chat_turn_fields [of p h n "py_strip s" "(emit Out_prompt st)\<lparr>stdin := rest\<rparr>"] by simp
    moreover have "chat_turn p h n (py_strip s) ((emit Out_prompt st)\<lparr>stdin := rest\<rparr>) \<noteq> Break st'"
      using assms by (auto dest: chat_turn_Break)
    ultimately show ?thesis
      using loop_body_line [OF line, of p h n] line by auto
  qed
qed

lemma run_loop_Break: "loop_body p h n st = Break st' \<Longrightarrow> run_loop p h n st = Some st'"
  by (subst run_loop.simps) simp

lemma run_loop_Continue: "loop_body p h n st = Continue st' \<Longrightarrow> run_loop p h n st = run_loop p h n st'"
  by (subst run_loop.simps) simp

text \<open>Every exit word is its own lower case, and holds no whitespace.\<close>

lemma exit_commands_lower_all:
  "list_all (\<lambda>t. t \<noteq> [] \<and> py_lower t = t \<and> list_all (\<lambda>c. \<not> py_isspace c) t) exit_commands"
  by (simp add: exit_commands_def py_isspace_def)

lemma exit_commands_lower:
  "t \<in> set exit_commands \<Longrightarrow> t \<noteq> [] \<and> py_lower t = t \<and> (\<forall>c\<in>set t. \<not> py_isspace c)"
  using exit_commands_lower_all by (simp add: list_all_iff list.pred_set)

text \<open>A letter-case variant: each code point as in the word, or an ASCII capital of it.\<close>

definition case_variant :: "codepoint \<Rightarrow> codepoint \<Rightarrow> bool" where
  "case_variant a b \<longleftrightarrow> a = b \<or> (97 \<le> b \<and> b \<le> 122 \<and> a + 32 = b)"

lemma case_variant_lower:
  "list_all2 case_variant s t \<Longrightarrow> \<forall>c\<in>set t. \<not> py_isspace c \<Longrightarrow>
     py_lower s = py_lower t \<and> (\<forall>c\<in>set s. \<not> py_isspace c)"
proof (induction rule: list_all2_induct)
  case Nil
  then show ?case by simp
next
  case (Cons a s b t)
  then have nb: "\<not> py_isspace b" and IH: "py_lower s = py_lower t \<and> (\<forall>c\<in>set s. \<not> py_isspace c)"
    by simp_all
  from Cons.hyps(1) have "py_lower_char a = py_lower_char b \<and> \<not> py_isspace a"
  proof (unfold case_variant_def, elim disjE conjE)
    assume "a = b"
    with nb show ?thesis by simp
  next
    assume "97 \<le> b" "b \<le> 122" "a + 32 = b"
    then show ?thesis by (simp add: py_isspace_letter)
  qed
  with IH show ?case by simp
qed

subsection \<open>Properties of the loop\<close>

text \<open>
  A line whose stripped, lower-cased text is an exit word ends the loop at once:
  \<open>Out_bye\<close> is printed after the prompt and no call is issued.
\<close>

lemma run_loop_exit:
  assumes "stdin st = In_line s # rest" and "py_lower (py_strip s) \<in> set exit_commands"
  shows "run_loop p h n st = Some (emit Out_bye ((emit Out_prompt st)\<lparr>stdin := rest\<rparr>))"
  using assms by (intro run_loop_Break loop_body_exit)

text \<open>
  C24. Every exit word, in any mix of ASCII letter case and with any surrounding
  whitespace, ends the loop without a call.
\<close>

theorem run_loop_exit_any_case:
  assumes "t \<in> set exit_commands" and "list_all2 case_variant s t"
    and "\<forall>c\<in>set a. py_isspace c" and "\<forall>c\<in>set b. py_isspace c"
    and "stdin st = In_line (a @ s @ b) # rest"
  shows "run_loop p h n st = Some (emit Out_bye ((emit Out_prompt st)\<lparr>stdin := rest\<rparr>))"
proof -
  from assms(1) have t: "t \<noteq> []" "py_lower t = t" "\<forall>c\<in>set t. \<not> py_isspace c"
    by (simp_all add: exit_commands_lower)
  with assms(2) have low: "py_lower s = t" and sp: "\<forall>c\<in>set s. \<not> py_isspace c"
    by (auto dest: case_variant_lower)
  from assms(2) t(1) have "s \<noteq> []" by (cases s) auto
  with sp have "py_strip s = s" by (intro py_strip_trimmed) simp
  with assms(3,4) have "py_strip (a @ s @ b) = s" by (simp add: py_strip_padded)
  with low assms(1) have "py_lower (py_strip (a @ s @ b)) \<in> set exit_commands" by simp
  from run_loop_exit [OF assms(5) this] show ?thesis .
qed

theorem run_loop_exit_any_case_witness:
  "run_loop (u ''openai'') (Client (u ''sk'')) (\<lparr>post_net = \<lambda>k. Post_raise (Exc Timeout []), oai_net = \<lambda>k. Oai_completion []\<rparr>)
     \<lparr>stdin = [In_line ([9] @ u ''ExIt'' @ [0x3000])], sent = [], printed = []\<rparr>
   = Some \<lparr>stdin = [], sent = [], printed = [Out_prompt, Out_bye]\<rparr>"
  using run_loop_exit_any_case [of "u ''exit''" "u ''ExIt''" "[9]" "[0x3000]"
      "\<lparr>stdin = [In_line ([9] @ u ''ExIt'' @ [0x3000])], sent = [], printed = []\<rparr>" "[]"
      "u ''openai''" "Client (u ''sk'')" "\<lparr>post_net = \<lambda>k. Post_raise (Exc Timeout []), oai_net = \<lambda>k. Oai_completion []\<rparr>"]
  by (simp add: exit_commands_def case_variant_def py_isspace_def emit_def)

text \<open>
  C9. Empty or whitespace-only input re-prompts: \<open>Out_empty\<close> is printed, no call
  is issued, and the loop goes on with the next line.
\<close>

theorem run_loop_blank:
  assumes "stdin st = In_line s # rest" and "\<forall>c\<in>set s. py_isspace c"
  shows "run_loop p h n st = run_loop p h n (emit Out_empty ((emit Out_prompt st)\<lparr>stdin := rest\<rparr>))"
proof -
  from assms(2) have "py_strip s = []" by (simp add: py_strip_eq_Nil)
  from run_loop_Continue [OF loop_body_blank [OF assms(1) this]] show ?thesis .
qed

theorem run_loop_blank_witness:
  "run_loop (u ''deepseek'') (Key (u ''sk'')) (\<lparr>post_net = \<lambda>k. Post_raise (Exc Timeout []), oai_net = \<lambda>k. Oai_completion []\<rparr>)
     \<lparr>stdin = [In_line [32, 9], In_line (u ''q'')], sent = [], printed = []\<rparr>
   = Some \<lparr>stdin = [], sent = [], printed = [Out_prompt, Out_empty, Out_prompt, Out_bye]\<rparr>"
proof -
  have "run_loop (u ''deepseek'') (Key (u ''sk'')) (\<lparr>post_net = \<lambda>k. Post_raise (Exc Timeout []), oai_net = \<lambda>k. Oai_completion []\<rparr>)
      \<lparr>stdin = [In_line [32, 9], In_line (u ''q'')], sent = [], printed = []\<rparr> =
    run_loop (u ''deepseek'') (Key (u ''sk'')) (\<lparr>post_net = \<lambda>k. Post_raise (Exc Timeout []), oai_net = \<lambda>k. Oai_completion []\<rparr>) \<lparr>stdin = [In_line (u ''q'')], sent = [], printed = [Out_prompt, Out_empty]\<rparr>"
    using run_loop_blank [of "\<lparr>stdin = [In_line [32, 9], In_line (u ''q'')], sent = [], printed = []\<rparr>"
        "[32, 9]" "[In_line (u ''q'')]"]
    by (simp add: py_isspace_def emit_def)
  also have "\<dots> = Some \<lparr>stdin = [], sent = [], printed = [Out_prompt, Out_empty, Out_prompt, Out_bye]\<rparr>"
    by (rule run_loop_Break, rule trans, rule loop_body_exit [where rest = "[]" and s = "u ''q''"])
      (simp_all add: py_strip_def py_isspace_def exit_commands_def emit_def)
  finally show ?thesis .
qed

text \<open>
  Ctrl-C at the prompt ends the loop with the interruption message and no call.
\<close>

lemma run_loop_interrupt:
  assumes "stdin st = In_interrupt # rest"
  shows "run_loop p h n st = Some (emit Out_interrupted ((emit Out_prompt st)\<lparr>stdin := rest\<rparr>))"
  using assms by (intro run_loop_Break loop_body_interrupt)

text \<open>
  C10. Termination: when the input holds a stop event (an exit word or Ctrl-C), the
  loop returns, whatever the network answers.
\<close>

theorem run_loop_terminates:
  assumes "\<exists>e\<in>set (stdin st). is_stop e"
  shows "\<exists>st'. run_loop p h n st = Some st'"
  using assms
proof (induction "stdin st" arbitrary: st)
  case Nil
  then show ?case by simp
next
  case (Cons e rest)
  show ?case
  proof (cases "loop_body p h n st")
    case (Break st')
    then show ?thesis by (auto dest: run_loop_Break)
  next
    case (Continue st')
    have "stdin st' = rest"
      using loop_body_stdin [of p h n st] Continue Cons.hyps(2) [symmetric] by simp
    moreover have "\<not> is_stop e"
      using loop_body_stop [where p = p and h = h and n = n, OF Cons.hyps(2) [symmetric]] Continue
      by auto
    ultimately have "\<exists>e\<in>set (stdin st'). is_stop e"
      using Cons.prems Cons.hyps(2) [symmetric] by auto
    with Cons.hyps(1) [of st'] \<open>stdin st' = rest\<close> obtain st'' where "run_loop p h n st' = Some st''"
      by blast
    with Continue show ?thesis by (auto simp: run_loop_Continue)
  qed
qed

theorem run_loop_terminates_witness:
  "\<exists>st'. run_loop (u ''deepseek'') (Key (u ''sk'')) (\<lparr>post_net = \<lambda>k. Post_raise (Exc Timeout []), oai_net = \<lambda>k. Oai_completion []\<rparr>)
     \<lparr>stdin = [In_line (u ''hello''), In_interrupt], sent = [], printed = []\<rparr> = Some st'"
  by (rule run_loop_terminates) simp

text \<open>
  A returning run ends at a stop event of the input or at an interrupt from the network
  (partial correctness of the loop, by fixpoint induction).
\<close>

lemma run_loop_Some_stop:
  assumes "run_loop p h n st = Some y"
  shows "(\<exists>e\<in>set (stdin st). is_stop e) \<or> net_interrupts n"
proof (rule run_loop.raw_induct [where P = "\<lambda>p h n st y. (\<exists>e\<in>set (stdin st). is_stop e) \<or> net_interrupts n", OF _ assms])
  fix f p h n st y
  assume IH: "\<And>p h n st y. f p h n st = Some y \<Longrightarrow> (\<exists>e\<in>set (stdin st). is_stop e) \<or> net_interrupts n"
    and eq: "(case loop_body p h n st of Continue st' \<Rightarrow> f p h n st' | Break st' \<Rightarrow> Some st') = Some y"
  show "(\<exists>e\<in>set (stdin st). is_stop e) \<or> net_interrupts n"
  proof (cases "loop_body p h n st")
    case (Continue st')
    with eq IH have "(\<exists>e\<in>set (stdin st'). is_stop e) \<or> net_interrupts n" by simp
    moreover have "set (stdin st') \<subseteq> set (stdin st)"
      using loop_body_stdin [of p h n st] Continue by (auto dest: in_set_dropD)
    ultimately show ?thesis by blast
  next
    case (Break st')
    then show ?thesis by (auto dest: loop_body_Break list.set_sel(1))
  qed
qed

text \<open>
  C11. The program's loop never ends once the input is exhausted without an exit word
  or Ctrl-C (and the network raises no interrupt): every \<open>input()\<close> raises
  \<open>EOFError\<close>, which the loop's \<open>except Exception\<close> prints and retries.
\<close>

theorem run_loop_diverges_at_eof:
  assumes "\<forall>e\<in>set (stdin st). \<not> is_stop e" and "\<not> net_interrupts n"
  shows "run_loop p h n st = None"
  using assms run_loop_Some_stop [of p h n st] by (cases "run_loop p h n st") auto

theorem run_loop_diverges_at_eof_witness:
  "run_loop (u ''deepseek'') (Key (u ''sk'')) \<lparr>post_net = \<lambda>k. Post_raise (Exc Timeout []),
      oai_net = \<lambda>k. Oai_completion []\<rparr> \<lparr>stdin = [], sent = [], printed = []\<rparr> = None"
  by (rule run_loop_diverges_at_eof) (simp_all add: net_interrupts_def)

text \<open>
  A run that returns with no interrupt from the network has issued exactly the calls
  of \<open>session_calls\<close> (fixpoint induction over the loop).
\<close>

lemma run_loop_session:
  assumes "run_loop p h n st = Some st'" and "\<not> net_interrupts n"
  shows "sent st' = sent st @ session_calls p h (stdin st)"
proof -
  have "\<not> net_interrupts n \<longrightarrow> sent st' = sent st @ session_calls p h (stdin st)"
  proof (rule run_loop.raw_induct [where P = "\<lambda>p h n st y. \<not> net_interrupts n \<longrightarrow>
      sent y = sent st @ session_calls p h (stdin st)", OF _ assms(1)])
    fix f p h n st y
    assume IH: "\<And>p h n st y. f p h n st = Some y \<Longrightarrow>
        \<not> net_interrupts n \<longrightarrow> sent y = sent st @ session_calls p h (stdin st)"
      and eq: "(case loop_body p h n st of Continue st' \<Rightarrow> f p h n st' | Break st' \<Rightarrow> Some st') = Some y"
    show "\<not> net_interrupts n \<longrightarrow> sent y = sent st @ session_calls p h (stdin st)"
    proof
      assume ni: "\<not> net_interrupts n"
      show "sent y = sent st @ session_calls p h (stdin st)"
      proof (cases "loop_body p h n st")
        case (Continue st'')
        with eq IH ni have "sent y = sent st'' @ session_calls p h (stdin st'')" by simp
        with loop_body_sent [OF ni, of p h st st''] Continue show ?thesis by simp
      next
        case (Break st'')
        with eq loop_body_sent [OF ni, of p h st st''] show ?thesis by simp
      qed
    qed
  qed
  with assms(2) show ?thesis by simp
qed

end
