(* ===== verification/Loop_Semantics.thy ===== *)
theory Loop_Semantics
  imports Chat_Loop
begin

text \<open>
  A relational semantics of the loop of \<open>main\<close> in \<open>src/main.py\<close> (lines 127--159).
  \<open>repl_step\<close> has one rule per way an iteration of \<open>while True\<close> can go, each with the
  whole state change written out. \<open>loop_body\<close> in \<open>Chat_Loop\<close> composes the same
  iteration from \<open>read_input\<close>, \<open>emit\<close>, \<open>chat_turn\<close> and \<open>loop_except\<close>; the two
  are shown equal. The states an iteration of a run can start from are \<open>loop_reach\<close>,
  the reflexive-transitive closure of the continuing steps; the loop \<open>run_loop\<close> returns
  exactly the states reached by a stopping step from one of them, and the invariants of
  the session (calls carry typed lines, at most one call per line, one status line per
  call) are proved by rule induction on \<open>loop_reach\<close>.
\<close>

text \<open>
  The state after an iteration that printed the prompt, consumed the input up to
  \<open>rest\<close>, issued the calls \<open>cs\<close> and printed \<open>evs\<close>.
\<close>

definition consumed :: "repl \<Rightarrow> line_event list \<Rightarrow> call list \<Rightarrow> out_event list \<Rightarrow> repl" where
  "consumed st rest cs evs =
     st\<lparr>stdin := rest, sent := sent st @ cs, printed := printed st @ Out_prompt # evs\<rparr>"

text \<open>The network's answers to the next call, the \<open>k\<close>-th with \<open>k\<close> the calls issued so far.\<close>

definition turn_result :: "ustr \<Rightarrow> handle \<Rightarrow> net \<Rightarrow> repl \<Rightarrow> ustr \<Rightarrow> call list \<times> (exc + json)" where
  "turn_result p h n st m =
     chat_with_ai p h m (post_net n (length (sent st))) (oai_net n (length (sent st)))"

inductive repl_step :: "ustr \<Rightarrow> handle \<Rightarrow> net \<Rightarrow> repl \<Rightarrow> repl step \<Rightarrow> bool" for p h n where
  eof: "stdin st = [] \<Longrightarrow>
    repl_step p h n st (Continue (consumed st [] [] [Out_error (u ''EOF when reading a line'')]))"
| interrupt: "stdin st = In_interrupt # rest \<Longrightarrow>
    repl_step p h n st (Break (consumed st rest [] [Out_interrupted]))"
| quit: "stdin st = In_line s # rest \<Longrightarrow> py_lower (py_strip s) \<in> set exit_commands \<Longrightarrow>
    repl_step p h n st (Break (consumed st rest [] [Out_bye]))"
| blank: "stdin st = In_line s # rest \<Longrightarrow> py_lower (py_strip s) \<notin> set exit_commands \<Longrightarrow>
    py_strip s = [] \<Longrightarrow> repl_step p h n st (Continue (consumed st rest [] [Out_empty]))"
| reply: "stdin st = In_line s # rest \<Longrightarrow> py_lower (py_strip s) \<notin> set exit_commands \<Longrightarrow>
    py_strip s \<noteq> [] \<Longrightarrow> turn_result p h n st (py_strip s) = (cs, Inr v) \<Longrightarrow>
    repl_step p h n st (Continue (consumed st rest cs [Out_thinking (provider_label p), Out_reply v]))"
| turn_interrupted: "stdin st = In_line s # rest \<Longrightarrow> py_lower (py_strip s) \<notin> set exit_commands \<Longrightarrow>
    py_strip s \<noteq> [] \<Longrightarrow> turn_result p h n st (py_strip s) = (cs, Inl e) \<Longrightarrow>
    exc_cls e = KeyboardInterrupt \<Longrightarrow>
    repl_step p h n st (Break (consumed st rest cs [Out_thinking (provider_label p), Out_interrupted]))"
| turn_failed: "stdin st = In_line s # rest \<Longrightarrow> py_lower (py_strip s) \<notin> set exit_commands \<Longrightarrow>
    py_strip s \<noteq> [] \<Longrightarrow> turn_result p h n st (py_strip s) = (cs, Inl e) \<Longrightarrow>
    exc_cls e \<noteq> KeyboardInterrupt \<Longrightarrow>
    repl_step p h n st (Continue (consumed st rest cs [Out_thinking (provider_label p), Out_error (exc_msg e)]))"

inductive_cases repl_step_ContinueE: "repl_step p h n st (Continue st')"
inductive_cases repl_step_BreakE: "repl_step p h n st (Break st')"

text \<open>The states from which an iteration of a run started at \<open>st0\<close> begins.\<close>

inductive loop_reach :: "ustr \<Rightarrow> handle \<Rightarrow> net \<Rightarrow> repl \<Rightarrow> repl \<Rightarrow> bool" for p h n st0 where
  start: "loop_reach p h n st0 st0"
| step: "loop_reach p h n st0 st \<Longrightarrow> repl_step p h n st (Continue st') \<Longrightarrow> loop_reach p h n st0 st'"

text \<open>The status line of lines 143--146, printed once per chat turn.\<close>

fun is_thinking :: "out_event \<Rightarrow> bool" where
  "is_thinking (Out_thinking p) = True"
| "is_thinking _ = False"

subsection \<open>Lemmas\<close>

lemma consumed_fields [simp]:
  "stdin (consumed st rest cs evs) = rest"
  "sent (consumed st rest cs evs) = sent st @ cs"
  "printed (consumed st rest cs evs) = printed st @ Out_prompt # evs"
  by (simp_all add: consumed_def)

lemma emit_consumed:
  "emit ev ((emit Out_prompt st)\<lparr>stdin := rest\<rparr>) = consumed st rest [] [ev]"
  "loop_except e ((emit Out_prompt st)\<lparr>stdin := rest\<rparr>) =
     (if exc_cls e = KeyboardInterrupt then Break (consumed st rest [] [Out_interrupted])
      else Continue (consumed st rest [] [Out_error (exc_msg e)]))"
  by (simp_all add: emit_def loop_except_def consumed_def)

lemma emit_consumed_eof: "stdin st = [] \<Longrightarrow> emit ev (emit Out_prompt st) = consumed st [] [] [ev]"
  by (cases st) (simp add: emit_def consumed_def)

lemma chat_turn_consumed:
  "chat_turn p h n m ((emit Out_prompt st)\<lparr>stdin := rest\<rparr>) =
     (case turn_result p h n st m of
        (cs, Inl e) \<Rightarrow>
          if exc_cls e = KeyboardInterrupt
          then Break (consumed st rest cs [Out_thinking (provider_label p), Out_interrupted])
          else Continue (consumed st rest cs [Out_thinking (provider_label p), Out_error (exc_msg e)])
      | (cs, Inr v) \<Rightarrow> Continue (consumed st rest cs [Out_thinking (provider_label p), Out_reply v]))"
  by (simp add: chat_turn_def turn_result_def Let_def emit_def loop_except_def consumed_def
      split: prod.split sum.split)

text \<open>Every iteration is a step of the relation (the relation covers the code) ...\<close>

lemma repl_step_loop_body: "repl_step p h n st (loop_body p h n st)"
proof (cases "stdin st")
  case Nil
  then have "emit ev (emit Out_prompt st) = consumed st [] [] [ev]" for ev
    by (rule emit_consumed_eof)
  then show ?thesis
    unfolding loop_body_eof [OF Nil] by (simp only: repl_step.eof [OF Nil])
next
  case (Cons e rest)
  show ?thesis
  proof (cases e)
    case In_interrupt
    with Cons show ?thesis
      by (simp add: loop_body_interrupt emit_consumed repl_step.interrupt)
  next
    case (In_line s)
    with Cons have line: "stdin st = In_line s # rest" by simp
    show ?thesis
    proof (cases "py_lower (py_strip s) \<in> set exit_commands")
      case True
      with line show ?thesis by (simp add: loop_body_exit emit_consumed repl_step.quit)
    next
      case nexit: False
      show ?thesis
      proof (cases "py_strip s = []")
        case True
        with line nexit show ?thesis by (simp add: loop_body_blank emit_consumed repl_step.blank)
      next
        case False
        obtain cs r where tr: "turn_result p h n st (py_strip s) = (cs, r)" by fastforce
        from line nexit False show ?thesis
          by (cases r) (auto simp: loop_body_chat chat_turn_consumed tr intro: repl_step.intros)
      qed
    qed
  qed
qed

text \<open>... and every step of the relation is the iteration the code runs.\<close>

lemma repl_step_determ: "repl_step p h n st r \<Longrightarrow> r = loop_body p h n st"
  by (induction rule: repl_step.induct)
    (simp_all add: loop_body_cases emit_consumed emit_consumed_eof chat_turn_consumed)

lemma turn_result_calls: "turn_result p h n st m = (cs, r) \<Longrightarrow> cs = chat_calls p h m"
  using fst_chat_with_ai [of p h m] by (metis fst_conv turn_result_def)

lemma concat_replicate_snoc: "concat (replicate k xs) @ xs = xs @ concat (replicate k xs)"
  by (induction k) simp_all

lemma loop_reach_loop_body:
  "loop_reach p h n st0 st \<Longrightarrow> loop_body p h n st = Continue st' \<Longrightarrow> loop_reach p h n st0 st'"
  by (rule loop_reach.step, assumption) (metis repl_step_loop_body)

lemma loop_reach_run:
  "loop_reach p h n st0 st \<Longrightarrow> run_loop p h n st0 = run_loop p h n st"
proof (induction rule: loop_reach.induct)
  case start
  show ?case ..
next
  case (step st st')
  from repl_step_determ [OF step.hyps(2)] have "loop_body p h n st = Continue st'" by simp
  with step.IH show ?case by (simp add: run_loop_Continue)
qed

lemma loop_reach_prepend:
  "loop_reach p h n st' st'' \<Longrightarrow> repl_step p h n st (Continue st') \<Longrightarrow> loop_reach p h n st st''"
  by (induction rule: loop_reach.induct) (auto intro: loop_reach.intros)

text \<open>What one step does: it consumes the next event, and either issues no call and
  prints no status line, or is a chat turn for a non-blank non-exit line, issuing that
  line's calls after one status line.\<close>

lemma repl_step_shape:
  assumes "repl_step p h n st r"
  obtains rest cs evs where "step_state r = consumed st rest cs evs" "rest = drop 1 (stdin st)"
    "(cs = [] \<and> filter is_thinking evs = []) \<or>
     (\<exists>s. stdin st = In_line s # rest \<and> py_strip s \<noteq> [] \<and> py_lower (py_strip s) \<notin> set exit_commands \<and>
          cs = chat_calls p h (py_strip s) \<and> length (filter is_thinking evs) = 1)"
  using assms
proof cases
  case (reply s rest cs v)
  moreover have "cs = chat_calls p h (py_strip s)" using reply(5) by (rule turn_result_calls)
  ultimately show ?thesis using that by fastforce
next
  case (turn_interrupted s rest cs e)
  moreover have "cs = chat_calls p h (py_strip s)" using turn_interrupted(5) by (rule turn_result_calls)
  ultimately show ?thesis using that by fastforce
next
  case (turn_failed s rest cs e)
  moreover have "cs = chat_calls p h (py_strip s)" using turn_failed(5) by (rule turn_result_calls)
  ultimately show ?thesis using that by fastforce
qed (use that in fastforce)+

text \<open>A returning run ends with a stopping step from a reachable state, and conversely
  (fixpoint induction for the first direction).\<close>

lemma run_loop_Some_reach:
  assumes "run_loop p h n st0 = Some st'"
  shows "\<exists>st. loop_reach p h n st0 st \<and> repl_step p h n st (Break st')"
proof (rule run_loop.raw_induct [where P = "\<lambda>p h n st0 st'.
    \<exists>st. loop_reach p h n st0 st \<and> repl_step p h n st (Break st')", OF _ assms])
  fix f p h n st0 y
  assume IH: "\<And>p h n st0 y. f p h n st0 = Some y \<Longrightarrow>
      \<exists>st. loop_reach p h n st0 st \<and> repl_step p h n st (Break y)"
    and eq: "(case loop_body p h n st0 of Continue st' \<Rightarrow> f p h n st' | Break st' \<Rightarrow> Some st') = Some y"
  show "\<exists>st. loop_reach p h n st0 st \<and> repl_step p h n st (Break y)"
  proof (cases "loop_body p h n st0")
    case (Continue st1)
    with eq have "f p h n st1 = Some y" by simp
    then obtain st where "loop_reach p h n st1 st" "repl_step p h n st (Break y)" using IH by blast
    moreover from Continue have "repl_step p h n st0 (Continue st1)" by (metis repl_step_loop_body)
    ultimately show ?thesis by (blast intro: loop_reach_prepend)
  next
    case (Break st1)
    with eq repl_step_loop_body [of p h n st0] show ?thesis by (auto intro: loop_reach.start)
  qed
qed

lemma reach_Break_run:
  "loop_reach p h n st0 st \<Longrightarrow> repl_step p h n st (Break st') \<Longrightarrow> run_loop p h n st0 = Some st'"
  by (simp add: loop_reach_run run_loop_Break repl_step_determ [symmetric])

lemma length_chat_calls: "length (chat_calls p h m) \<le> 1"
  by (simp add: chat_calls_def split: handle.split)

lemma length_chat_calls_selected:
  "p = u ''deepseek'' \<or> (p = u ''openai'' \<and> (\<exists>k. h = Client k)) \<Longrightarrow> length (chat_calls p h m) = 1"
  by (auto simp: chat_calls_def)

text \<open>One step: the calls issued plus the events left to read never grow.\<close>

lemma repl_step_bound:
  assumes "repl_step p h n st r"
  shows "length (sent (step_state r)) + length (stdin (step_state r)) \<le> length (sent st) + length (stdin st)"
proof -
  from assms obtain rest cs evs where st': "step_state r = consumed st rest cs evs"
    and rest: "rest = drop 1 (stdin st)"
    and cs: "(cs = [] \<and> filter is_thinking evs = []) \<or>
     (\<exists>s. stdin st = In_line s # rest \<and> py_strip s \<noteq> [] \<and> py_lower (py_strip s) \<notin> set exit_commands \<and>
          cs = chat_calls p h (py_strip s) \<and> length (filter is_thinking evs) = 1)"
    by (rule repl_step_shape)
  from cs show ?thesis
  proof
    assume "cs = [] \<and> filter is_thinking evs = []"
    with st' rest show ?thesis by simp
  next
    assume "\<exists>s. stdin st = In_line s # rest \<and> py_strip s \<noteq> [] \<and>
        py_lower (py_strip s) \<notin> set exit_commands \<and> cs = chat_calls p h (py_strip s) \<and>
        length (filter is_thinking evs) = 1"
    then obtain s where "stdin st = In_line s # rest" "cs = chat_calls p h (py_strip s)" by blast
    with st' length_chat_calls [of p h "py_strip s"] show ?thesis by simp
  qed
qed

lemma loop_reach_bound:
  "loop_reach p h n st0 st \<Longrightarrow>
     length (sent st) + length (stdin st) \<le> length (sent st0) + length (stdin st0)"
  by (induction rule: loop_reach.induct) (auto dest: repl_step_bound)

lemma run_loop_bound:
  assumes "run_loop p h n st0 = Some st'"
  shows "length (sent st') \<le> length (sent st0) + length (stdin st0)"
proof -
  from run_loop_Some_reach [OF assms] obtain st
    where "loop_reach p h n st0 st" "repl_step p h n st (Break st')" by blast
  then show ?thesis by (auto dest!: loop_reach_bound repl_step_bound)
qed

lemma loop_reach_stdin: "loop_reach p h n st0 st \<Longrightarrow> set (stdin st) \<subseteq> set (stdin st0)"
proof (induction rule: loop_reach.induct)
  case start
  show ?case ..
next
  case (step st st')
  from step.hyps(2) obtain rest cs evs where "st' = consumed st rest cs evs" "rest = drop 1 (stdin st)"
    by (rule repl_step_shape) simp
  with step.IH show ?case by (auto dest: in_set_dropD)
qed

lemma chat_calls_Http_post:
  "Http_post rq \<in> set (chat_calls p h m) \<Longrightarrow> p = u ''deepseek'' \<and> rq = deepseek_request (handle_str h) m"
  by (cases "p = u ''deepseek''"; cases "p = u ''openai''"; cases h) (simp_all add: chat_calls_def)

lemma chat_calls_Openai_create:
  "Openai_create oc \<in> set (chat_calls p h m) \<Longrightarrow> p = u ''openai'' \<and> (\<exists>k. h = Client k)"
  by (cases "p = u ''deepseek''"; cases "p = u ''openai''"; cases h) (simp_all add: chat_calls_def)

lemma loop_reach_no_farewell:
  "loop_reach p h n st0 st \<Longrightarrow>
     \<exists>evs. printed st = printed st0 @ evs \<and> Out_bye \<notin> set evs \<and> Out_interrupted \<notin> set evs"
proof (induction rule: loop_reach.induct)
  case start
  show ?case by simp
next
  case (step st st')
  from step.hyps(2) step.IH show ?case
    by (cases rule: repl_step.cases) fastforce+
qed

text \<open>A concrete first turn: a padded line sent to DeepSeek, whose request times out.\<close>

lemma loop_reach_example:
  "loop_reach (u ''deepseek'') (Key (u ''sk'')) \<lparr>post_net = \<lambda>k. Post_raise (Exc Timeout []), oai_net = \<lambda>k. Oai_completion []\<rparr> \<lparr>stdin = [In_line (u '' hi '')], sent = [], printed = []\<rparr>
     (consumed \<lparr>stdin = [In_line (u '' hi '')], sent = [], printed = []\<rparr> [] [Http_post (deepseek_request (u ''sk'') (u ''hi''))]
      [Out_thinking (provider_label (u ''deepseek'')), Out_reply (JStr (deepseek_request_failed @ []))])"
  by (rule loop_reach.step [OF loop_reach.start], rule repl_step.reply [where s = "u '' hi ''" and rest = "[]"])
    (simp_all add: py_strip_def py_isspace_def exit_commands_def turn_result_def chat_with_ai_def
      chat_with_deepseek_def deepseek_try_def deepseek_except_def)

subsection \<open>Properties of the loop semantics\<close>

text \<open>
  C28. In every state the loop reaches, whether or not the run ever returns, each call
  issued in the session carries a line the user typed, stripped, non-blank and not an
  exit word: the calls are those \<open>chat_calls\<close> lists for that line.
\<close>

theorem loop_reach_calls_typed:
  assumes "loop_reach p h n st0 st" and "c \<in> set (sent st)"
  shows "c \<in> set (sent st0) \<or> (\<exists>s. In_line s \<in> set (stdin st0) \<and> py_strip s \<noteq> [] \<and>
           py_lower (py_strip s) \<notin> set exit_commands \<and> c \<in> set (chat_calls p h (py_strip s)))"
  using assms
proof (induction arbitrary: c rule: loop_reach.induct)
  case start
  then show ?case by simp
next
  case (step st st')
  have sub: "set (stdin st) \<subseteq> set (stdin st0)" by (rule loop_reach_stdin [OF step.hyps(1)])
  from step.hyps(2) step.prems step.IH sub show ?case
    by (cases rule: repl_step.cases) (auto dest: turn_result_calls)
qed

theorem loop_reach_calls_typed_witness:
  "loop_reach (u ''deepseek'') (Key (u ''sk'')) \<lparr>post_net = \<lambda>k. Post_raise (Exc Timeout []), oai_net = \<lambda>k. Oai_completion []\<rparr> \<lparr>stdin = [In_line (u '' hi '')], sent = [], printed = []\<rparr>
     (consumed \<lparr>stdin = [In_line (u '' hi '')], sent = [], printed = []\<rparr> [] [Http_post (deepseek_request (u ''sk'') (u ''hi''))]
      [Out_thinking (provider_label (u ''deepseek'')), Out_reply (JStr (deepseek_request_failed @ []))]) \<and>
   Http_post (deepseek_request (u ''sk'') (u ''hi'')) \<in> set (sent (consumed \<lparr>stdin = [In_line (u '' hi '')], sent = [], printed = []\<rparr> [] [Http_post (deepseek_request (u ''sk'') (u ''hi''))]
      [Out_thinking (provider_label (u ''deepseek'')), Out_reply (JStr (deepseek_request_failed @ []))])) \<and>
   (\<exists>s. In_line s \<in> set (stdin \<lparr>stdin = [In_line (u '' hi '')], sent = [], printed = []\<rparr>) \<and> py_strip s \<noteq> [] \<and>
      py_lower (py_strip s) \<notin> set exit_commands \<and>
      Http_post (deepseek_request (u ''sk'') (u ''hi'')) \<in> set (chat_calls (u ''deepseek'') (Key (u ''sk'')) (py_strip s)))"
proof -
  have m: "Http_post (deepseek_request (u ''sk'') (u ''hi'')) \<in> set (sent (consumed \<lparr>stdin = [In_line (u '' hi '')], sent = [], printed = []\<rparr> [] [Http_post (deepseek_request (u ''sk'') (u ''hi''))]
      [Out_thinking (provider_label (u ''deepseek'')), Out_reply (JStr (deepseek_request_failed @ []))]))" by simp
  from loop_reach_calls_typed [OF loop_reach_example m] loop_reach_example m show ?thesis by simp
qed

text \<open>
  C29. With a provider \<open>init_client\<close> can select, every status line ``... is
  thinking'' printed in the session is matched by exactly one outbound call, in every
  reachable state.
\<close>

theorem loop_reach_status_per_call:
  assumes "p = u ''deepseek'' \<or> (p = u ''openai'' \<and> (\<exists>k. h = Client k))"
    and "loop_reach p h n st0 st"
  shows "length (filter is_thinking (printed st)) + length (sent st0) =
         length (filter is_thinking (printed st0)) + length (sent st)"
  using assms(2)
proof (induction rule: loop_reach.induct)
  case start
  show ?case ..
next
  case (step st st')
  from step.hyps(2) step.IH show ?case
    by (cases rule: repl_step.cases)
      (auto dest!: turn_result_calls simp: length_chat_calls_selected [OF assms(1)])
qed

theorem loop_reach_status_per_call_witness:
  "(u ''deepseek'' = u ''deepseek'' \<or> (u ''deepseek'' = u ''openai'' \<and> (\<exists>k. Key (u ''sk'') = Client k))) \<and>
   loop_reach (u ''deepseek'') (Key (u ''sk'')) \<lparr>post_net = \<lambda>k. Post_raise (Exc Timeout []), oai_net = \<lambda>k. Oai_completion []\<rparr> \<lparr>stdin = [In_line (u '' hi '')], sent = [], printed = []\<rparr>
     (consumed \<lparr>stdin = [In_line (u '' hi '')], sent = [], printed = []\<rparr> [] [Http_post (deepseek_request (u ''sk'') (u ''hi''))]
      [Out_thinking (provider_label (u ''deepseek'')), Out_reply (JStr (deepseek_request_failed @ []))]) \<and>
   length (filter is_thinking (printed (consumed \<lparr>stdin = [In_line (u '' hi '')], sent = [], printed = []\<rparr> [] [Http_post (deepseek_request (u ''sk'') (u ''hi''))]
      [Out_thinking (provider_label (u ''deepseek'')), Out_reply (JStr (deepseek_request_failed @ []))]))) + length (sent \<lparr>stdin = [In_line (u '' hi '')], sent = [], printed = []\<rparr>) =
   length (filter is_thinking (printed \<lparr>stdin = [In_line (u '' hi '')], sent = [], printed = []\<rparr>)) + length (sent (consumed \<lparr>stdin = [In_line (u '' hi '')], sent = [], printed = []\<rparr> [] [Http_post (deepseek_request (u ''sk'') (u ''hi''))]
      [Out_thinking (provider_label (u ''deepseek'')), Out_reply (JStr (deepseek_request_failed @ []))]))"
  using loop_reach_status_per_call [OF _ loop_reach_example] loop_reach_example by simp

text \<open>
  C8. Once console input is exhausted the loop does not wait silently: every iteration
  prints the prompt and the \<open>EOFError\<close> message, so for every \<open>k\<close> the run
  reaches the state that has printed \<open>k\<close> more prompt/error pairs and issued no call.
\<close>

theorem loop_reach_eof_flood:
  assumes "stdin st = []"
  shows "loop_reach p h n st
    (st\<lparr>printed := printed st @ concat (replicate k [Out_prompt, Out_error (u ''EOF when reading a line'')])\<rparr>)"
proof (induction k)
  case 0
  have "st\<lparr>printed := printed st\<rparr> = st" by simp
  then show ?case by (simp add: loop_reach.start)
next
  case (Suc k)
  let ?stk = "st\<lparr>printed := printed st @ concat (replicate k [Out_prompt, Out_error (u ''EOF when reading a line'')])\<rparr>"
  from assms have "repl_step p h n ?stk (Continue (consumed ?stk [] [] [Out_error (u ''EOF when reading a line'')]))"
    by (intro repl_step.eof) simp
  moreover have "consumed ?stk [] [] [Out_error (u ''EOF when reading a line'')] =
      st\<lparr>printed := printed st @ concat (replicate (Suc k) [Out_prompt, Out_error (u ''EOF when reading a line'')])\<rparr>"
    using assms by (cases st) (simp add: consumed_def concat_replicate_snoc)
  ultimately show ?case using Suc.IH by (auto intro: loop_reach.step)
qed

theorem loop_reach_eof_flood_witness:
  "loop_reach (u ''deepseek'') (Key (u ''sk'')) \<lparr>post_net = \<lambda>k. Post_raise (Exc Timeout []), oai_net = \<lambda>k. Oai_completion []\<rparr> \<lparr>stdin = [], sent = [], printed = []\<rparr>
     \<lparr>stdin = [], sent = [], printed = [Out_prompt, Out_error (u ''EOF when reading a line''),
       Out_prompt, Out_error (u ''EOF when reading a line'')]\<rparr>"
  using loop_reach_eof_flood [of "\<lparr>stdin = [], sent = [], printed = []\<rparr>" "u ''deepseek''" "Key (u ''sk'')"
      "\<lparr>post_net = \<lambda>k. Post_raise (Exc Timeout []), oai_net = \<lambda>k. Oai_completion []\<rparr>" 2]
  by (simp add: numeral_2_eq_2)

text \<open>
  C15. Credential confinement: in every state the loop reaches, each HTTP request the
  session has issued goes to the DeepSeek endpoint, with timeout 30, JSON content type
  and the selected key as bearer token and nothing else in its headers, and only when
  the provider is \<open>deepseek\<close>; an SDK call is made only for \<open>openai\<close> with a
  client. No key is ever sent to another endpoint.
\<close>

theorem loop_reach_credential_confined:
  assumes "loop_reach p h n st0 st" and "c \<in> set (sent st)"
  shows "c \<in> set (sent st0) \<or>
    (case c of
       Http_post rq \<Rightarrow> p = u ''deepseek'' \<and> req_url rq = deepseek_url \<and> req_timeout rq = 30 \<and>
         req_headers rq = [(u ''Content-Type'', u ''application/json''),
                           (u ''Authorization'', u ''Bearer '' @ handle_str h)]
     | Openai_create oc \<Rightarrow> p = u ''openai'' \<and> (\<exists>k. h = Client k))"
  using assms
proof (induction arbitrary: c rule: loop_reach.induct)
  case start
  then show ?case by simp
next
  case (step st st')
  from step.hyps(2) obtain rest cs evs where st': "st' = consumed st rest cs evs"
    and cs: "(cs = [] \<and> filter is_thinking evs = []) \<or>
     (\<exists>s. stdin st = In_line s # rest \<and> py_strip s \<noteq> [] \<and> py_lower (py_strip s) \<notin> set exit_commands \<and>
          cs = chat_calls p h (py_strip s) \<and> length (filter is_thinking evs) = 1)"
    by (rule repl_step_shape) simp
  from step.prems st' have "c \<in> set (sent st) \<or> c \<in> set cs" by simp
  then show ?case
  proof
    assume "c \<in> set (sent st)"
    then show ?thesis by (rule step.IH)
  next
    assume "c \<in> set cs"
    with cs obtain m where cm: "c \<in> set (chat_calls p h m)" by auto
    show ?thesis
    proof (cases c)
      case (Http_post rq)
      with cm chat_calls_Http_post [of rq p h m] have "p = u ''deepseek''" "rq = deepseek_request (handle_str h) m"
        by simp_all
      with Http_post show ?thesis by (simp add: deepseek_request_def)
    next
      case (Openai_create oc)
      with cm chat_calls_Openai_create [of oc p h m] show ?thesis by simp
    qed
  qed
qed

theorem loop_reach_credential_confined_witness:
  "loop_reach (u ''deepseek'') (Key (u ''sk'')) \<lparr>post_net = \<lambda>k. Post_raise (Exc Timeout []), oai_net = \<lambda>k. Oai_completion []\<rparr> \<lparr>stdin = [In_line (u '' hi '')], sent = [], printed = []\<rparr>
     (consumed \<lparr>stdin = [In_line (u '' hi '')], sent = [], printed = []\<rparr> [] [Http_post (deepseek_request (u ''sk'') (u ''hi''))]
      [Out_thinking (provider_label (u ''deepseek'')), Out_reply (JStr (deepseek_request_failed @ []))]) \<and>
   Http_post (deepseek_request (u ''sk'') (u ''hi'')) \<in> set (sent (consumed \<lparr>stdin = [In_line (u '' hi '')], sent = [], printed = []\<rparr> [] [Http_post (deepseek_request (u ''sk'') (u ''hi''))]
      [Out_thinking (provider_label (u ''deepseek'')), Out_reply (JStr (deepseek_request_failed @ []))])) \<and>
   (Http_post (deepseek_request (u ''sk'') (u ''hi'')) \<in> set (sent \<lparr>stdin = [In_line (u '' hi '')], sent = [], printed = []\<rparr>) \<or>
    (case Http_post (deepseek_request (u ''sk'') (u ''hi'')) of
       Http_post rq \<Rightarrow> u ''deepseek'' = u ''deepseek'' \<and> req_url rq = deepseek_url \<and> req_timeout rq = 30 \<and>
         req_headers rq = [(u ''Content-Type'', u ''application/json''),
                           (u ''Authorization'', u ''Bearer '' @ handle_str (Key (u ''sk'')))]
     | Openai_create oc \<Rightarrow> u ''deepseek'' = u ''openai'' \<and> (\<exists>k. Key (u ''sk'') = Client k)))"
proof -
  have m: "Http_post (deepseek_request (u ''sk'') (u ''hi'')) \<in> set (sent (consumed \<lparr>stdin = [In_line (u '' hi '')], sent = [], printed = []\<rparr> [] [Http_post (deepseek_request (u ''sk'') (u ''hi''))]
      [Out_thinking (provider_label (u ''deepseek'')), Out_reply (JStr (deepseek_request_failed @ []))]))" by simp
  from loop_reach_credential_confined [OF loop_reach_example m] loop_reach_example m show ?thesis
    by blast
qed

text \<open>
  C26. A run of the loop that returns ends with the farewell: the last event printed is
  the goodbye of an exit word or the interruption message of a Ctrl-C (at the prompt or
  during a call), and neither is printed anywhere before it.
\<close>

theorem run_loop_ends_with_farewell:
  assumes "run_loop p h n st0 = Some st'"
  shows "\<exists>evs f. printed st' = printed st0 @ evs @ [f] \<and> (f = Out_bye \<or> f = Out_interrupted) \<and>
           Out_bye \<notin> set evs \<and> Out_interrupted \<notin> set evs"
proof -
  from run_loop_Some_reach [OF assms] obtain st
    where r: "loop_reach p h n st0 st" and b: "repl_step p h n st (Break st')" by blast
  from loop_reach_no_farewell [OF r] obtain evs
    where e: "printed st = printed st0 @ evs" "Out_bye \<notin> set evs" "Out_interrupted \<notin> set evs" by blast
  from b e show ?thesis
    by (cases rule: repl_step.cases) fastforce+
qed

theorem run_loop_ends_with_farewell_witness:
  "run_loop (u ''openai'') (Client (u ''sk'')) \<lparr>post_net = \<lambda>k. Post_raise (Exc Timeout []), oai_net = \<lambda>k. Oai_completion []\<rparr>
     \<lparr>stdin = [In_interrupt, In_line (u ''hi'')], sent = [], printed = []\<rparr> =
     Some \<lparr>stdin = [In_line (u ''hi'')], sent = [], printed = [Out_prompt, Out_interrupted]\<rparr> \<and>
   (\<exists>evs f. [Out_prompt, Out_interrupted] = [] @ evs @ [f] \<and> (f = Out_bye \<or> f = Out_interrupted) \<and>
      Out_bye \<notin> set evs \<and> Out_interrupted \<notin> set evs)"
proof -
  have r: "run_loop (u ''openai'') (Client (u ''sk'')) \<lparr>post_net = \<lambda>k. Post_raise (Exc Timeout []), oai_net = \<lambda>k. Oai_completion []\<rparr>
     \<lparr>stdin = [In_interrupt, In_line (u ''hi'')], sent = [], printed = []\<rparr> =
     Some \<lparr>stdin = [In_line (u ''hi'')], sent = [], printed = [Out_prompt, Out_interrupted]\<rparr>"
    by (rule run_loop_Break, rule trans, rule loop_body_interrupt [where rest = "[In_line (u ''hi'')]"])
      (simp_all add: emit_def)
  from run_loop_ends_with_farewell [OF r] r show ?thesis by simp
qed

end
