(* ===== verification/Console.thy ===== *)
theory Console
  imports Loop_Semantics
begin

text \<open>
  The text the program writes to the console. Each \<open>out_event\<close> of the model is the
  output of one group of \<open>print\<close> calls of \<open>src/main.py\<close>; \<open>render\<close> gives its
  exact text, every \<open>print\<close> ending in a newline, with the source's Chinese literals
  as code points. A reply is printed through an f-string, that is by \<open>str()\<close>
  (\<open>py_str\<close>): a \<open>str\<close> as itself, \<open>None\<close>, \<open>True\<close>, \<open>False\<close> and integers as
  Python spells them. \<open>str()\<close> of a float, list or dict (possible only as DeepSeek
  content) is not modelled; \<open>py_str\<close> is \<open>None\<close> there and so is the console text.
  The prompt \<open>input()\<close> writes (\<open>Out_prompt\<close>) ends in no newline: the next
  text follows it on the same line, which is why the interruption message of line 155
  starts with one.
\<close>

fun py_str :: "json \<Rightarrow> ustr option" where
  "py_str JNull = Some (u ''None'')"
| "py_str (JBool b) = Some (if b then u ''True'' else u ''False'')"
| "py_str (JInt i) = Some (show_int i)"
| "py_str (JStr s) = Some s"
| "py_str (JFloat r) = None"
| "py_str (JList vs) = None"
| "py_str (JObj kvs) = None"

text \<open>The prefix of a reply line, line 152.\<close>

definition reply_prefix :: ustr where
  "reply_prefix = [0x1F916] @ u '' AI: ''"

fun render :: "out_event \<Rightarrow> ustr option" where
  "render (Out_missing_key v) =
     Some ([0x274C, 32, 0x9519, 0x8BEF, 0xFF1A, 0x672A, 0x627E, 0x5230] @ v @
       [0x73AF, 0x5883, 0x53D8, 0x91CF, 10, 0x8BF7, 0x5728] @ u ''.env'' @
       [0x6587, 0x4EF6, 0x4E2D, 0x8BBE, 0x7F6E] @ v @ [10])"
| "render (Out_unsupported p) =
     Some ([0x274C, 32, 0x9519, 0x8BEF, 0xFF1A, 0x4E0D, 0x652F, 0x6301, 0x7684, 0x6A21, 0x578B, 0x63D0,
       0x4F9B, 0x5546, 32, 39] @ p @ [39, 10, 0x652F, 0x6301, 0x7684, 0x63D0, 0x4F9B, 0x5546, 0xFF1A] @
       u ''deepseek, openai'' @ [10])"
| "render Out_banner =
     Some ([0x1F916, 32, 0x7B80, 0x5355, 0x7684, 0x5927, 0x6A21, 0x578B, 0x804A, 0x5929, 0x673A, 0x5668,
       0x4EBA] @ u ''Demo'' @ [10, 0x652F, 0x6301] @ u ''DeepSeek'' @ [0x548C] @ u ''OpenAI'' @
       [0x6A21, 0x578B, 10, 0x8F93, 0x5165, 32, 39] @ u ''quit'' @ [39, 32, 0x6216, 32, 39] @ u ''exit'' @
       [39, 32, 0x9000, 0x51FA, 0x7A0B, 0x5E8F, 10, 10])"
| "render (Out_init_ok p) =
     Some ([0x2705] @ (if p = u ''deepseek'' then u '' DeepSeek'' else u '' OpenAI'') @
       [0x5BA2, 0x6237, 0x7AEF, 0x521D, 0x59CB, 0x5316, 0x6210, 0x529F, 33, 10])"
| "render Out_blank = Some [10]"
| "render Out_prompt = Some [0x1F464, 32, 0x4F60, 58, 32]"
| "render Out_bye = Some [0x1F44B, 32, 0x518D, 0x89C1, 33, 10]"
| "render Out_empty = Some ([0x8BF7, 0x8F93, 0x5165, 0x4E00, 0x4E9B, 0x5185, 0x5BB9] @ u ''...'' @ [10])"
| "render (Out_thinking p) =
     Some ([0x1F916] @ (if p = u ''deepseek'' then u '' DeepSeek AI'' else u '' OpenAI'') @
       [0x6B63, 0x5728, 0x601D, 0x8003] @ u ''...'' @ [10])"
| "render (Out_reply v) = map_option (\<lambda>s. reply_prefix @ s @ [10, 10]) (py_str v)"
| "render Out_interrupted =
     Some [10, 0x1F44B, 32, 0x7A0B, 0x5E8F, 0x88AB, 0x7528, 0x6237, 0x4E2D, 0x65AD, 0xFF0C, 0x518D, 0x89C1, 33, 10]"
| "render (Out_error m) =
     Some ([0x274C, 32, 0x53D1, 0x751F, 0x9519, 0x8BEF, 58, 32] @ m @ [10, 0x8BF7, 0x91CD, 0x8BD5] @ u ''...'' @
       [10, 10])"

text \<open>The console text of a sequence of events.\<close>

fun console :: "out_event list \<Rightarrow> ustr option" where
  "console [] = Some []"
| "console (e # es) = (case render e of None \<Rightarrow> None | Some t \<Rightarrow> map_option ((@) t) (console es))"

text \<open>
  What the OpenAI adapter answers to each outcome of the SDK call (lines 84--96): the
  first choice's \<open>message.content\<close>, \<open>None\<close> when that content is null, and the
  failure text when the call raises or returns no choice. A \<open>KeyboardInterrupt\<close> is
  not caught there and produces no reply; its entry is never read.
\<close>

fun oai_answer_reply :: "oai_outcome \<Rightarrow> json" where
  "oai_answer_reply (Oai_completion (c # cs)) = (case c of None \<Rightarrow> JNull | Some s \<Rightarrow> JStr s)"
| "oai_answer_reply (Oai_completion []) = JStr (openai_request_failed @ u ''list index out of range'')"
| "oai_answer_reply (Oai_raise e) = JStr (openai_request_failed @ exc_msg e)"

text \<open>The reply lines of line 152.\<close>

fun is_reply :: "out_event \<Rightarrow> bool" where
  "is_reply (Out_reply v) = True"
| "is_reply _ = False"

subsection \<open>Lemmas\<close>

lemma chat_with_ai_openai_Inr:
  "chat_with_ai p (Client k) m po a = (cs, Inr v) \<Longrightarrow> p = u ''openai'' \<Longrightarrow>
     cs = [Openai_create (openai_request m)] \<and> v = oai_answer_reply a"
  by (cases a rule: oai_answer_reply.cases)
    (auto simp: chat_with_ai_def chat_with_openai_Client split: option.splits if_splits)

lemma loop_reach_sent_prefix: "loop_reach p h n st0 st \<Longrightarrow> length (sent st0) \<le> length (sent st)"
  by (induction rule: loop_reach.induct) (auto elim: repl_step_shape)

subsection \<open>Properties of the console output\<close>

text \<open>
  C31. The transcript of a conversation with OpenAI: for any key and any non-blank,
  non-exit line whose completion has content \<open>c\<close>, followed by \<open>q\<close>, the program
  issues the one SDK call for the stripped line and writes exactly the banner, the
  success line, an empty line, the prompt, the status line, \<open>c\<close> after the reply
  prefix with a blank line, the prompt again and the farewell (the lines typed are
  echoed by the terminal, not written by the program).
\<close>

theorem main_transcript_openai:
  assumes "init_client env = ([], Some (u ''openai'', Client k))"
    and "py_strip s \<noteq> []" and "py_lower (py_strip s) \<notin> set exit_commands"
    and "oai_net n 0 = Oai_completion (Some c # cs)"
  shows "\<exists>st'. main env n [In_line s, In_line (u ''q'')] = Some st' \<and>
     sent st' = [Openai_create (openai_request (py_strip s))] \<and>
     console (printed st') = Some ([0x1F916, 32, 0x7B80, 0x5355, 0x7684, 0x5927, 0x6A21, 0x578B, 0x804A,
       0x5929, 0x673A, 0x5668, 0x4EBA] @ u ''Demo'' @ [10, 0x652F, 0x6301] @ u ''DeepSeek'' @ [0x548C] @
       u ''OpenAI'' @ [0x6A21, 0x578B, 10, 0x8F93, 0x5165, 32, 39] @ u ''quit'' @ [39, 32, 0x6216, 32, 39] @
       u ''exit'' @ [39, 32, 0x9000, 0x51FA, 0x7A0B, 0x5E8F, 10, 10, 0x2705] @ u '' OpenAI'' @
       [0x5BA2, 0x6237, 0x7AEF, 0x521D, 0x59CB, 0x5316, 0x6210, 0x529F, 33, 10, 10, 0x1F464, 32, 0x4F60, 58, 32,
       0x1F916] @ u '' OpenAI'' @
       [0x6B63, 0x5728, 0x601D, 0x8003] @ u ''...'' @ [10, 0x1F916] @ u '' AI: '' @ c @
       [10, 10, 0x1F464, 32, 0x4F60, 58, 32, 0x1F44B, 32, 0x518D, 0x89C1, 33, 10])"
proof -
  let ?st0 = "\<lparr>stdin = [In_line s, In_line (u ''q'')], sent = [],
      printed = [Out_banner, Out_init_ok (u ''openai''), Out_blank]\<rparr>"
  let ?st1 = "\<lparr>stdin = [In_line (u ''q'')], sent = [Openai_create (openai_request (py_strip s))],
      printed = [Out_banner, Out_init_ok (u ''openai''), Out_blank, Out_prompt, Out_thinking (u ''openai''),
                 Out_reply (JStr c)]\<rparr>"
  have m: "main env n [In_line s, In_line (u ''q'')] = run_loop (u ''openai'') (Client k) n ?st0"
    using assms(1) by (simp add: main_def provider_label_def)
  have b1: "loop_body (u ''openai'') (Client k) n ?st0 = Continue ?st1"
    using assms(2-4)
    by (simp add: loop_body_chat chat_turn_def chat_with_ai_def chat_with_openai_Client emit_def
        provider_label_def Let_def)
  have b2: "loop_body (u ''openai'') (Client k) n ?st1 =
      Break (emit Out_bye ((emit Out_prompt ?st1)\<lparr>stdin := []\<rparr>))"
    by (rule loop_body_exit [where s = "u ''q''"]) (simp_all add: py_strip_def py_isspace_def exit_commands_def)
  have "main env n [In_line s, In_line (u ''q'')] = Some (emit Out_bye ((emit Out_prompt ?st1)\<lparr>stdin := []\<rparr>))"
    unfolding m run_loop_Continue [OF b1] by (rule run_loop_Break [OF b2])
  then show ?thesis by (simp add: emit_def reply_prefix_def)
qed

theorem main_transcript_openai_witness:
  "\<exists>st'. main [u ''MODEL_PROVIDER'' \<mapsto> u ''openai'', u ''OPENAI_API_KEY'' \<mapsto> u ''sk'']
     \<lparr>post_net = \<lambda>k. Post_raise (Exc Timeout []), oai_net = \<lambda>k. Oai_completion [Some (u ''hello'')]\<rparr> [In_line (u '' hi ''), In_line (u ''q'')] = Some st' \<and>
     sent st' = [Openai_create (openai_request (u ''hi''))] \<and>
     console (printed st') = Some ([0x1F916, 32, 0x7B80, 0x5355, 0x7684, 0x5927, 0x6A21, 0x578B, 0x804A,
       0x5929, 0x673A, 0x5668, 0x4EBA] @ u ''Demo'' @ [10, 0x652F, 0x6301] @ u ''DeepSeek'' @ [0x548C] @
       u ''OpenAI'' @ [0x6A21, 0x578B, 10, 0x8F93, 0x5165, 32, 39] @ u ''quit'' @ [39, 32, 0x6216, 32, 39] @
       u ''exit'' @ [39, 32, 0x9000, 0x51FA, 0x7A0B, 0x5E8F, 10, 10, 0x2705] @ u '' OpenAI'' @
       [0x5BA2, 0x6237, 0x7AEF, 0x521D, 0x59CB, 0x5316, 0x6210, 0x529F, 33, 10, 10, 0x1F464, 32, 0x4F60, 58, 32,
       0x1F916] @ u '' OpenAI'' @
       [0x6B63, 0x5728, 0x601D, 0x8003] @ u ''...'' @ [10, 0x1F916] @ u '' AI: '' @ u ''hello'' @
       [10, 10, 0x1F464, 32, 0x4F60, 58, 32, 0x1F44B, 32, 0x518D, 0x89C1, 33, 10])"
proof -
  have h: "init_client [u ''MODEL_PROVIDER'' \<mapsto> u ''openai'', u ''OPENAI_API_KEY'' \<mapsto> u ''sk''] = ([], Some (u ''openai'', Client (u ''sk'')))"
    by (simp add: init_client_simps)
  from main_transcript_openai [OF h, of "u '' hi ''" "\<lparr>post_net = \<lambda>k. Post_raise (Exc Timeout []), oai_net = \<lambda>k. Oai_completion [Some (u ''hello'')]\<rparr>" "u ''hello''" "[]"]
  show ?thesis by (simp add: py_strip_def py_isspace_def exit_commands_def)
qed

text \<open>
  C32. In a session with OpenAI, the reply lines the loop prints are, in order, the
  adapter's answers to the SDK calls it makes, one per call: the \<open>k\<close>-th call's
  \<open>message.content\<close> (or \<open>None\<close>, or the failure text), and nothing else, in
  particular never the user's own line.
\<close>

theorem loop_reach_openai_replies:
  assumes "loop_reach (u ''openai'') (Client key) n st0 st"
  shows "filter is_reply (printed st) = filter is_reply (printed st0) @
    map (\<lambda>k. Out_reply (oai_answer_reply (oai_net n k))) [length (sent st0) ..< length (sent st)]"
  using assms
proof (induction rule: loop_reach.induct)
  case start
  then show ?case by simp
next
  case (step st st')
  have le: "length (sent st0) \<le> length (sent st)" by (rule loop_reach_sent_prefix [OF step.hyps(1)])
  from step.hyps(2) step.IH le show ?case
  proof (cases rule: repl_step.cases)
    case (reply s rest cs v)
    from reply(5) have "cs = [Openai_create (openai_request (py_strip s))] \<and>
        v = oai_answer_reply (oai_net n (length (sent st)))"
      unfolding turn_result_def by (rule chat_with_ai_openai_Inr [OF _ refl])
    with reply step.IH le show ?thesis by simp
  next
    case (turn_failed s rest cs e)
    from turn_failed(5) have "snd (chat_with_ai (u ''openai'') (Client key) (py_strip s)
        (post_net n (length (sent st))) (oai_net n (length (sent st)))) = Inl e"
      by (simp add: turn_result_def)
    then have "exc_cls e = KeyboardInterrupt" by (blast dest: chat_with_ai_Inl)
    with turn_failed show ?thesis by simp
  qed simp_all
qed

theorem loop_reach_openai_replies_witness:
  "loop_reach (u ''openai'') (Client (u ''sk'')) \<lparr>post_net = \<lambda>k. Post_raise (Exc Timeout []), oai_net = \<lambda>k. Oai_completion [Some (u ''hello'')]\<rparr> \<lparr>stdin = [In_line (u ''hi'')], sent = [], printed = []\<rparr>
     (consumed \<lparr>stdin = [In_line (u ''hi'')], sent = [], printed = []\<rparr> [] [Openai_create (openai_request (u ''hi''))]
       [Out_thinking (provider_label (u ''openai'')), Out_reply (JStr (u ''hello''))]) \<and>
   filter is_reply (printed (consumed \<lparr>stdin = [In_line (u ''hi'')], sent = [], printed = []\<rparr> [] [Openai_create (openai_request (u ''hi''))]
       [Out_thinking (provider_label (u ''openai'')), Out_reply (JStr (u ''hello''))])) = [Out_reply (JStr (u ''hello''))]"
proof -
  have r: "loop_reach (u ''openai'') (Client (u ''sk'')) \<lparr>post_net = \<lambda>k. Post_raise (Exc Timeout []), oai_net = \<lambda>k. Oai_completion [Some (u ''hello'')]\<rparr> \<lparr>stdin = [In_line (u ''hi'')], sent = [], printed = []\<rparr>
     (consumed \<lparr>stdin = [In_line (u ''hi'')], sent = [], printed = []\<rparr> [] [Openai_create (openai_request (u ''hi''))]
       [Out_thinking (provider_label (u ''openai'')), Out_reply (JStr (u ''hello''))])"
    by (rule loop_reach.step [OF loop_reach.start], rule repl_step.reply [where s = "u ''hi''" and rest = "[]"])
      (simp_all add: py_strip_def py_isspace_def exit_commands_def turn_result_def chat_with_ai_def
        chat_with_openai_Client)
  from loop_reach_openai_replies [OF r] r show ?thesis by simp
qed

end
