(* ===== verification/Spec2Isabelle.thy ===== *)
theory Spec2Isabelle
  imports Console
begin

text \<open>
  A verification model of the command-line chat client \<open>src/main.py\<close>
  (simple-llm-demo), a single Python file. The program has three parts, which interact
  by one data hand-off: \<open>main\<close> calls the resolver once, then passes the selected
  provider and its key or client to the adapter on every loop iteration.
  \<^item> Provider Resolver, \<open>init_client\<close> (lines 17--44): reads \<open>MODEL_PROVIDER\<close>
    (default \<open>deepseek\<close>, lower-cased) and the provider's key variable, prints an
    error and returns \<open>(None, None)\<close> for an unknown name or a missing key. The
    environment is the process environment completed by \<open>load_dotenv()\<close> (line 15).
  \<^item> Chat Adapter, \<open>chat_with_deepseek\<close>, \<open>chat_with_openai\<close>, \<open>chat_with_ai\<close>
    (lines 46--107): one HTTP POST or one SDK call per message, every failure turned
    into a reply string by the \<open>except\<close> clauses.
  \<^item> Interactive loop, \<open>main\<close> (lines 109--159): reads a line, strips it, ends on an
    exit word (any case) or Ctrl-C, re-prompts on blank input, otherwise prints the
    reply; any other exception is printed and the loop goes on.

  Theories and how they correspond to the code:
  \<^item> \<open>Chat_Prelude\<close>: Python \<open>str\<close> as a list of Unicode code points (\<open>ustr\<close>),
    \<open>str.strip\<close> (\<open>py_strip\<close>, CPython's whitespace table), \<open>str.lower\<close>
    (\<open>py_lower\<close>), \<open>str(int)\<close>, and \<open>bind_exc\<close> for code that may raise;
    lemmas: strip is idempotent, removes any padding, lower is idempotent.
  \<^item> \<open>Py_Values\<close>: decoded JSON (\<open>json\<close>), exception classes with the
    \<open>isinstance\<close> tests the \<open>except\<close> clauses make, and \<open>getitem\<close>, Python's
    \<open>obj[key]\<close> with the \<open>KeyError\<close>/\<open>IndexError\<close>/\<open>TypeError\<close> each shape raises.
  \<^item> \<open>Chat_Adapter\<close>: records for the outbound calls (\<open>http_request\<close>,
    \<open>openai_call\<close>), the network's answer as an argument (\<open>post_outcome\<close>,
    \<open>oai_outcome\<close>), \<open>raise_for_status\<close>, \<open>response_json\<close>, the subscription
    chain \<open>extract_content\<close>, the \<open>try\<close> bodies and \<open>except\<close> clauses, and the
    three functions, each returning the calls it issued and its Python result.
    Lemmas C1--C5, C12--C14, C20--C22: every branch of both adapters (success, HTTP
    error, transport error, missing key, empty list, invalid JSON), that only
    \<open>KeyboardInterrupt\<close> escapes, and that the request body carries the message.
  \<^item> \<open>Resolver\<close>: the environment as a map, \<open>load_dotenv\<close> (the process
    environment wins over \<open>.env\<close>, python-dotenv's \<open>override=False\<close>), printed
    output as \<open>out_event\<close>s, \<open>init_client\<close>, the spec's contract \<open>resolve\<close>
    (section 4.1) and the abstraction \<open>abs_init\<close>. Lemmas C6, C7, C16, C17, C23,
    C30: the error branches, the selection invariant, the default, the three variables
    read, and refinement of \<open>resolve\<close> except on an empty key, where code and spec
    differ (the code treats an empty key as missing).
  \<^item> \<open>Chat_Loop\<close>: the loop state \<open>repl\<close> (unread input, issued calls, printed
    events), \<open>input()\<close> as \<open>read_input\<close> (\<open>EOFError\<close> forever once the input
    is exhausted), one iteration \<open>loop_body\<close>, the loop \<open>run_loop\<close> as a
    \<open>partial_function (option)\<close> (\<open>None\<close> is a run that never ends), \<open>main\<close>,
    and \<open>program\<close> (lines 15 and 161--162). Every iteration first prints the
    prompt of \<open>input()\<close> (\<open>Out_prompt\<close>). Lemmas C9--C11, C24: exit words in
    any ASCII case and padding, blank input, Ctrl-C, termination when a stop event is
    in the input, divergence when there is none; the abstract session
    \<open>session_calls\<close> and its refinement.
  \<^item> \<open>Loop_Semantics\<close>: the same iteration as an inductive step relation
    \<open>repl_step\<close>, one rule per branch, and the states a run reaches,
    \<open>loop_reach\<close>. The helper lemmas show that the relation is exactly
    \<open>loop_body\<close> and that \<open>run_loop\<close> returns exactly what a stopping step from a
    reachable state gives, so properties of \<open>loop_reach\<close> are properties of the loop.
    Lemmas C28, C29: in every reachable state (also of runs that never return) each call
    carries a typed, stripped, non-blank, non-exit line, and each status line is
    matched by one call; C15: each HTTP request carries the key only to the DeepSeek
    endpoint, and only for the \<open>deepseek\<close> provider; C26: a run that returns ends
    with the farewell, printed once; C8: once the input is exhausted every iteration prints the
    prompt and the \<open>EOFError\<close> message, so the console output grows without bound;
    the bound behind C27.
  \<^item> \<open>Console\<close>: the exact text of every \<open>print\<close> and of the prompt (\<open>render\<close>) and
    \<open>str()\<close> of a reply (\<open>py_str\<close>). Lemmas C31, C32: the full transcript of an
    OpenAI conversation, and that in every state an OpenAI session reaches the reply lines
    printed are, in order, the adapter's answers (\<open>oai_answer_reply\<close>: the content,
    \<open>None\<close> or the failure text) to the SDK calls made, one per call.
  \<^item> This theory: properties across components, C18 (a resolved selection always
    reaches a real adapter with the configured key, one call per turn), C19 (a
    returning run of \<open>main\<close> issues exactly the calls of the abstract session), C25
    (resolution failure with exactly one of the resolver's messages, at program level),
    C27 (at most one call per input event).

  No fuel is used: the loop is a \<open>partial_function (option)\<close>; termination is proved
  as \<open>\<exists>st'. run_loop \<dots> = Some st'\<close> by induction on the input, non-termination as
  \<open>run_loop \<dots> = None\<close> from the fixpoint induction rule \<open>run_loop.raw_induct\<close>.
  Invariants that must hold also of runs that never return are stated over
  \<open>loop_reach\<close> and proved by rule induction; the output of a run that never
  returns is described by its finite prefixes, the states it reaches (C8). The network answers the k-th call
  with \<open>post_net n k\<close> / \<open>oai_net n k\<close>, so every theorem holds for every
  sequence of answers.

  Not modelled: the parsing of the \<open>.env\<close> file (its variables are an argument);
  the HTTP and OpenAI client libraries beyond the outcome of the one call (in
  particular requests' \<open>timeout=30\<close> bounds each read, not the whole call); the
  echo of typed lines, which the terminal writes and not the program;
  \<open>str()\<close> of a float, list or dict reply (possible only
  as DeepSeek content; its console text is undefined in the model); \<open>str.lower\<close>
  beyond what comparison with the program's literals needs; a \<open>KeyboardInterrupt\<close>
  arriving anywhere but at \<open>input()\<close> or in the network call. Each of these lies
  outside \<open>src/main.py\<close> (python-dotenv's parser, requests, the OpenAI SDK, the
  terminal) or would need tables the program never consults (CPython's float
  \<open>repr\<close>, \<open>str.isprintable\<close> and full Unicode case mapping); every line of the
  program itself is modelled, so the development stops here rather than model these
  from their documentation.
\<close>

section \<open>Properties across the components\<close>

text \<open>\<open>main\<close> after a successful resolution is the loop on the initial state.\<close>

lemma main_Some_selection:
  assumes "init_client env = (evs, Some (p, h))"
  shows "main env n inp = run_loop p h n \<lparr>stdin = inp, sent = [],
            printed = Out_banner # evs @ [Out_init_ok (provider_label p), Out_blank]\<rparr>"
  using assms by (simp add: main_def)

lemma main_example:
  "main [u ''MODEL_PROVIDER'' \<mapsto> u ''openai'', u ''OPENAI_API_KEY'' \<mapsto> u ''sk'']
     \<lparr>post_net = \<lambda>k. Post_raise (Exc Timeout []), oai_net = \<lambda>k. Oai_completion [Some (u ''hello'')]\<rparr>
     [In_line (u '' hi ''), In_line (u ''q'')] =
   Some \<lparr>stdin = [], sent = [Openai_create (openai_request (u ''hi''))],
     printed = [Out_banner, Out_init_ok (u ''openai''), Out_blank, Out_prompt, Out_thinking (u ''openai''),
       Out_reply (JStr (u ''hello'')), Out_prompt, Out_bye]\<rparr>"
  apply (simp add: main_def init_client_simps provider_label_def)
  apply (subst run_loop.simps)
  apply (simp add: loop_body_def Let_def py_strip_def py_isspace_def exit_commands_def chat_turn_def
      chat_with_ai_def chat_with_openai_Client emit_def provider_label_def)
  apply (subst run_loop.simps)
  apply (simp add: loop_body_def Let_def py_strip_def py_isspace_def exit_commands_def emit_def)
  done

text \<open>
  C18. Every turn after a successful resolution is dispatched to a real adapter, never
  to the unsupported-provider branch of \<open>chat_with_ai\<close>: to \<open>chat_with_deepseek\<close>
  with the key of \<open>DEEPSEEK_API_KEY\<close>, or to \<open>chat_with_openai\<close> with a client of
  \<open>OPENAI_API_KEY\<close>; and it issues exactly one call.
\<close>

theorem resolved_turn_dispatch:
  assumes "init_client env = (evs, Some (p, h))"
  shows "((\<exists>k. env (u ''DEEPSEEK_API_KEY'') = Some k \<and> chat_with_ai p h m po oo = chat_with_deepseek k m po)
        \<or> (\<exists>k. env (u ''OPENAI_API_KEY'') = Some k \<and> chat_with_ai p h m po oo = chat_with_openai (Client k) m oo))
       \<and> length (fst (chat_with_ai p h m po oo)) = 1"
  using init_client_Some [OF assms] fst_chat_with_ai [of p h m po oo]
  by (auto simp: chat_with_ai_def chat_calls_def)

theorem resolved_turn_dispatch_witness:
  "length (fst (chat_with_ai (u ''deepseek'') (Key (u ''sk'')) (u ''hi'') (Post_raise (Exc Timeout []))
      (Oai_completion []))) = 1"
proof -
  have h: "init_client [u ''DEEPSEEK_API_KEY'' \<mapsto> u ''sk''] = ([], Some (u ''deepseek'', Key (u ''sk'')))"
    by (simp add: init_client_simps)
  from resolved_turn_dispatch [OF h, of "u ''hi''" "Post_raise (Exc Timeout [])" "Oai_completion []"]
  show ?thesis by blast
qed

text \<open>
  C19. Refinement of the session contract of the spec: a run of the program that
  returns, with no interrupt from the network, has issued exactly the calls of
  \<open>session_calls\<close>: one call per non-blank, non-exit input line before the first exit
  word or Ctrl-C, each for the stripped line and the resolved provider.
\<close>

theorem main_session:
  assumes "init_client env = (evs, Some (p, h))" and "main env n inp = Some st'"
    and "\<not> net_interrupts n"
  shows "sent st' = session_calls p h inp"
  using run_loop_session [OF assms(2) [unfolded main_Some_selection [OF assms(1)]] assms(3)] by simp

theorem main_session_witness:
  "session_calls (u ''openai'') (Client (u ''sk'')) [In_line (u '' hi ''), In_line (u ''q'')] =
     [Openai_create (openai_request (u ''hi''))]"
proof -
  have h: "init_client [u ''MODEL_PROVIDER'' \<mapsto> u ''openai'', u ''OPENAI_API_KEY'' \<mapsto> u ''sk''] =
      ([], Some (u ''openai'', Client (u ''sk'')))"
    by (simp add: init_client_simps)
  have ni: "\<not> net_interrupts
      \<lparr>post_net = \<lambda>k. Post_raise (Exc Timeout []), oai_net = \<lambda>k. Oai_completion [Some (u ''hello'')]\<rparr>"
    by (simp add: net_interrupts_def)
  from main_session [OF h main_example ni] show ?thesis by simp
qed

text \<open>
  C27. Bound on the calls of a session: a run of the program that returns has issued at
  most one outbound call per console input event, whatever the environment and the
  network answer.
\<close>

theorem main_calls_bound:
  assumes "main env n inp = Some st'"
  shows "length (sent st') \<le> length inp"
proof -
  obtain evs sel where i: "init_client env = (evs, sel)" by fastforce
  show ?thesis
  proof (cases sel)
    case None
    with i assms show ?thesis by (auto simp: main_def)
  next
    case (Some ph)
    then obtain p h where "sel = Some (p, h)" by fastforce
    with i assms have "run_loop p h n \<lparr>stdin = inp, sent = [],
        printed = Out_banner # evs @ [Out_init_ok (provider_label p), Out_blank]\<rparr> = Some st'"
      by (simp add: main_Some_selection)
    from run_loop_bound [OF this] show ?thesis by simp
  qed
qed

theorem main_calls_bound_witness:
  "main [u ''MODEL_PROVIDER'' \<mapsto> u ''openai'', u ''OPENAI_API_KEY'' \<mapsto> u ''sk'']
     \<lparr>post_net = \<lambda>k. Post_raise (Exc Timeout []), oai_net = \<lambda>k. Oai_completion [Some (u ''hello'')]\<rparr>
     [In_line (u '' hi ''), In_line (u ''q'')] =
   Some \<lparr>stdin = [], sent = [Openai_create (openai_request (u ''hi''))],
     printed = [Out_banner, Out_init_ok (u ''openai''), Out_blank, Out_prompt, Out_thinking (u ''openai''),
       Out_reply (JStr (u ''hello'')), Out_prompt, Out_bye]\<rparr> \<and>
   length [Openai_create (openai_request (u ''hi''))] \<le> length [In_line (u '' hi ''), In_line (u ''q'')]"
  using main_calls_bound [OF main_example] main_example by simp

text \<open>
  C25. When resolution fails the program prints the banner and exactly one message of
  the resolver, either the missing key variable of a recognised provider or the
  unrecognised provider name, and returns without reading input or issuing a call.
\<close>

theorem main_init_failure:
  assumes "init_client env = (evs, None)"
  shows "main env n inp = Some \<lparr>stdin = inp, sent = [], printed = Out_banner # evs\<rparr> \<and>
    ((\<exists>v. evs = [Out_missing_key v] \<and> (v = u ''DEEPSEEK_API_KEY'' \<or> v = u ''OPENAI_API_KEY'')) \<or>
     (\<exists>p. evs = [Out_unsupported p] \<and> p \<noteq> u ''deepseek'' \<and> p \<noteq> u ''openai''))"
  using assms init_client_None [OF assms] by (simp add: main_def)

theorem main_init_failure_witness:
  "main [u ''MODEL_PROVIDER'' \<mapsto> u ''DeepSeek''] \<lparr>post_net = \<lambda>k. Post_raise (Exc Timeout []),
      oai_net = \<lambda>k. Oai_completion []\<rparr> [In_line (u ''hi'')] =
     Some \<lparr>stdin = [In_line (u ''hi'')], sent = [],
       printed = [Out_banner, Out_missing_key (u ''DEEPSEEK_API_KEY'')]\<rparr>"
proof -
  have h: "init_client [u ''MODEL_PROVIDER'' \<mapsto> u ''DeepSeek''] = ([Out_missing_key (u ''DEEPSEEK_API_KEY'')], None)"
    by (simp add: init_client_simps)
  from main_init_failure [OF h] show ?thesis by simp
qed

end
